theory Spec2Isabelle
  imports Main "HOL-Library.Sublist"
begin

section \<open>Python values\<close>

text \<open>
  The tool arguments, the document metadata and the result envelopes of
  \<^verbatim>\<open>gemini_tools.py\<close> are untyped Python data (\<^verbatim>\<open>Dict[str, Any]\<close>). The values
  modelled are the ones a function-calling runtime and a document loader deliver:
  \<^verbatim>\<open>None\<close>, booleans, unbounded integers, floats, strings, lists and dictionaries
  with string keys (kept as association lists, in insertion order).

  A finite float is \<open>m * 2 ^ e\<close>; the text that \<^verbatim>\<open>repr\<close> gives for it (the
  shortest decimal that reads back as the same float) is a function of the value that
  is not recomputed here, it is carried in the value.

  Python tells one \<^verbatim>\<open>nan\<close> from another by the identity of the object, where
  it looks a dictionary key up; the number in \<open>NaN\<close> stands for that identity.

  A string is a list of code points below 256, one \<open>char\<close> each. CPython limits the
  number of digits in conversions between \<^verbatim>\<open>int\<close> and \<^verbatim>\<open>str\<close> (4300 unless the
  process is told otherwise). Reading an integer from a string is modelled with that
  limit; writing an integer of more digits as a string is not part of the model.
\<close>

datatype pyfloat = Finite int int string | Infinity bool | NaN nat

datatype pyval =
    PNone
  | PBool bool
  | PInt int
  | PFloat pyfloat
  | PStr string
  | PList "pyval list"
  | PDict "(string \<times> pyval) list"

text \<open>
  Exceptions: the classes the code tells apart (\<^verbatim>\<open>except (ValueError, TypeError)\<close>),
  those its own operations raise, and one class for every other subclass of
  \<^verbatim>\<open>Exception\<close> that a collaborator may raise. \<open>exc_msg\<close> is \<^verbatim>\<open>str(e)\<close>.
  An exception is an error here, an instance of \<^verbatim>\<open>Exception\<close>; interrupts and
  interpreter exits (\<^verbatim>\<open>KeyboardInterrupt\<close>, \<^verbatim>\<open>SystemExit\<close>), which are not, are
  outside the model.
\<close>

datatype exc_class =
    ValueError | TypeError | OverflowError | AttributeError | KeyError | OtherException

datatype exc = Exc (exc_class: exc_class) (exc_msg: string)

fun py_type_name :: "pyval \<Rightarrow> string" where
  "py_type_name PNone = ''NoneType''"
| "py_type_name (PBool b) = ''bool''"
| "py_type_name (PInt i) = ''int''"
| "py_type_name (PFloat f) = ''float''"
| "py_type_name (PStr s) = ''str''"
| "py_type_name (PList xs) = ''list''"
| "py_type_name (PDict kvs) = ''dict''"

text \<open>Truth value testing (\<^verbatim>\<open>not x\<close>, \<^verbatim>\<open>if x\<close>).\<close>

fun py_bool :: "pyval \<Rightarrow> bool" where
  "py_bool PNone = False"
| "py_bool (PBool b) = b"
| "py_bool (PInt i) = (i \<noteq> 0)"
| "py_bool (PFloat (Finite m e r)) = (m \<noteq> 0)"
| "py_bool (PFloat (Infinity neg)) = True"
| "py_bool (PFloat (NaN i)) = True"
| "py_bool (PStr s) = (s \<noteq> [])"
| "py_bool (PList xs) = (xs \<noteq> [])"
| "py_bool (PDict kvs) = (kvs \<noteq> [])"

subsection \<open>Text of a value: \<^verbatim>\<open>str\<close> and \<^verbatim>\<open>repr\<close>\<close>

definition digit_char :: "nat \<Rightarrow> char" where
  "digit_char d = char_of (of_char (CHR ''0'') + d)"

fun str_of_nat :: "nat \<Rightarrow> string" where
  "str_of_nat n =
     (if n < 10 then [digit_char n] else str_of_nat (n div 10) @ [digit_char (n mod 10)])"

declare str_of_nat.simps [simp del]

definition str_of_int :: "int \<Rightarrow> string" where
  "str_of_int i = (if i < 0 then CHR ''-'' # str_of_nat (nat (- i)) else str_of_nat (nat i))"

definition hex_char :: "nat \<Rightarrow> char" where
  "hex_char d = (if d < 10 then digit_char d else char_of (of_char (CHR ''a'') + (d - 10)))"

text \<open>
  \<^verbatim>\<open>repr\<close> of a string: single quotes, unless the text holds a single quote and no
  double quote; the quote and the backslash are escaped, tab, newline and carriage
  return have their letters, every other non-printable code point is \<^verbatim>\<open>\xNN\<close>.
  Below 256 the non-printable code points are the controls (0 to 31, 127 to 159),
  the no-break space 160 and the soft hyphen 173.
\<close>

definition printable :: "char \<Rightarrow> bool" where
  "printable c =
     (let n = (of_char c :: nat)
      in 32 \<le> n \<and> n < 127 \<or> 161 \<le> n \<and> n \<noteq> 173)"

definition repr_char :: "char \<Rightarrow> char \<Rightarrow> string" where
  "repr_char q c =
     (if c = q \<or> c = CHR 0x5C then [CHR 0x5C, c]
      else if c = CHR 0x09 then [CHR 0x5C, CHR ''t'']
      else if c = CHR 0x0A then [CHR 0x5C, CHR ''n'']
      else if c = CHR 0x0D then [CHR 0x5C, CHR ''r'']
      else if printable c then [c]
      else [CHR 0x5C, CHR ''x'', hex_char (of_char c div 16), hex_char (of_char c mod 16)])"

definition str_repr :: "string \<Rightarrow> string" where
  "str_repr s =
     (let q = (if CHR 0x27 \<in> set s \<and> CHR 0x22 \<notin> set s then CHR 0x22 else CHR 0x27)
      in q # concat (map (repr_char q) s) @ [q])"

fun float_repr :: "pyfloat \<Rightarrow> string" where
  "float_repr (Finite m e r) = r"
| "float_repr (Infinity neg) = (if neg then ''-inf'' else ''inf'')"
| "float_repr (NaN i) = ''nan''"

text \<open>\<^verbatim>\<open>sep.join(parts)\<close>\<close>

fun join :: "string \<Rightarrow> string list \<Rightarrow> string" where
  "join sep [] = []"
| "join sep [x] = x"
| "join sep (x # y # ys) = x @ sep @ join sep (y # ys)"

primrec py_repr :: "pyval \<Rightarrow> string" where
  "py_repr PNone = ''None''"
| "py_repr (PBool b) = (if b then ''True'' else ''False'')"
| "py_repr (PInt i) = str_of_int i"
| "py_repr (PFloat f) = float_repr f"
| "py_repr (PStr s) = str_repr s"
| "py_repr (PList xs) = ''['' @ join '', '' (map py_repr xs) @ '']''"
| "py_repr (PDict kvs) =
     ''{'' @ join '', '' (map (\<lambda>kv. str_repr (fst kv) @ '': '' @ snd kv)
                            (map (map_prod id py_repr) kvs)) @ ''}''"

text \<open>\<^verbatim>\<open>str(x)\<close>, which is also what an f-string field \<^verbatim>\<open>{x}\<close> inserts.\<close>

definition py_str :: "pyval \<Rightarrow> string" where
  "py_str v = (case v of PStr s \<Rightarrow> s | _ \<Rightarrow> py_repr v)"

subsection \<open>\<^verbatim>\<open>int(x)\<close>\<close>

text \<open>
  \<^verbatim>\<open>int\<close> of a string, in base ten, as CPython reads it: white space is dropped at
  both ends (tab to carriage return and the space, and the two spaces of the code
  points from 128 to 255; not the separators 28 to 31); a sign may follow; then come
  digits, where single underscores may stand between two digits. The digits are
  scanned and counted first, the limit on their number is tested next, and only then
  is what follows the digits looked at.
\<close>

definition is_space :: "char \<Rightarrow> bool" where
  "is_space c = ((of_char c :: nat) \<in> set [9, 10, 11, 12, 13, 32, 133, 160])"

definition is_digit :: "char \<Rightarrow> bool" where
  "is_digit c = (48 \<le> (of_char c :: nat) \<and> (of_char c :: nat) \<le> 57)"

definition strip :: "string \<Rightarrow> string" where
  "strip s = rev (dropWhile is_space (rev (dropWhile is_space s)))"

definition int_max_str_digits :: nat where
  "int_max_str_digits = 4300"

text \<open>
  The value of a run of digits and underscores; there is none when an underscore is
  not followed by a digit.
\<close>

fun int_digits :: "string \<Rightarrow> nat \<Rightarrow> nat option" where
  "int_digits [] acc = Some acc"
| "int_digits (c # cs) acc =
     (if is_digit c then int_digits cs (10 * acc + (of_char c - 48))
      else if c = CHR ''_'' \<and> cs \<noteq> [] \<and> is_digit (hd cs) then int_digits cs acc
      else None)"

datatype literal = Invalid | TooLong nat | Literal nat

definition int_literal :: "string \<Rightarrow> literal" where
  "int_literal s =
     (let run = takeWhile (\<lambda>c. is_digit c \<or> c = CHR ''_'') s
      in if run = [] then Invalid
         else if \<not> is_digit (hd run) then Invalid
         else
           (case int_digits run 0 of
              None \<Rightarrow> Invalid
            | Some n \<Rightarrow>
                if int_max_str_digits < length (filter is_digit run)
                then TooLong (length (filter is_digit run))
                else if length run < length s then Invalid
                else Literal n))"

definition int_of_str :: "string \<Rightarrow> string + int" where
  "int_of_str s =
     (let invalid = ''invalid literal for int() with base 10: '' @ take 200 (str_repr s);
          too_long = (\<lambda>n. ''Exceeds the limit ('' @ str_of_nat int_max_str_digits
                           @ '' digits) for integer string conversion: value has ''
                           @ str_of_nat n
                           @ '' digits; use sys.set_int_max_str_digits() to increase the limit'')
      in case strip s of
           [] \<Rightarrow> Inl invalid
         | c # cs \<Rightarrow>
             (case int_literal (if c = CHR ''-'' \<or> c = CHR ''+'' then cs else c # cs) of
                Invalid \<Rightarrow> Inl invalid
              | TooLong n \<Rightarrow> Inl (too_long n)
              | Literal n \<Rightarrow> Inr (if c = CHR ''-'' then - int n else int n)))"

text \<open>A finite float is truncated towards zero.\<close>

definition float_trunc :: "int \<Rightarrow> int \<Rightarrow> int" where
  "float_trunc m e =
     (if 0 \<le> e then m * 2 ^ nat e
      else if 0 \<le> m then m div 2 ^ nat (- e)
      else - ((- m) div 2 ^ nat (- e)))"

definition int_type_error :: "pyval \<Rightarrow> exc" where
  "int_type_error v =
     Exc TypeError
       (''int() argument must be a string, a bytes-like object or a real number, not ''
        @ [CHR 0x27] @ py_type_name v @ [CHR 0x27])"

fun py_int :: "pyval \<Rightarrow> exc + int" where
  "py_int PNone = Inl (int_type_error PNone)"
| "py_int (PBool b) = Inr (if b then 1 else 0)"
| "py_int (PInt i) = Inr i"
| "py_int (PFloat (Finite m e r)) = Inr (float_trunc m e)"
| "py_int (PFloat (Infinity neg)) =
     Inl (Exc OverflowError ''cannot convert float infinity to integer'')"
| "py_int (PFloat (NaN i)) = Inl (Exc ValueError ''cannot convert float NaN to integer'')"
| "py_int (PStr s) =
     (case int_of_str s of
        Inr i \<Rightarrow> Inr i
      | Inl msg \<Rightarrow> Inl (Exc ValueError msg))"
| "py_int (PList xs) = Inl (int_type_error (PList xs))"
| "py_int (PDict kvs) = Inl (int_type_error (PDict kvs))"

subsection \<open>Strings, slices, dictionaries\<close>

definition lower_char :: "char \<Rightarrow> char" where
  "lower_char c =
     (let n = (of_char c :: nat)
      in if 65 \<le> n \<and> n \<le> 90 \<or> 192 \<le> n \<and> n \<le> 222 \<and> n \<noteq> 215
         then char_of (n + 32) else c)"

definition lower :: "string \<Rightarrow> string" where
  "lower s = map lower_char s"

text \<open>\<^verbatim>\<open>x.lower()\<close> on a value: only a string has the method.\<close>

definition py_lower :: "pyval \<Rightarrow> exc + string" where
  "py_lower v =
     (case v of
        PStr s \<Rightarrow> Inr (lower s)
      | _ \<Rightarrow>
          Inl (Exc AttributeError
                 ([CHR 0x27] @ py_type_name v @ [CHR 0x27]
                  @ '' object has no attribute '' @ [CHR 0x27] @ ''lower'' @ [CHR 0x27])))"

text \<open>
  The slice \<^verbatim>\<open>xs[:k]\<close>: the first \<open>k\<close> elements when \<open>k\<close> is not negative;
  a negative \<open>k\<close> counts from the end, so that all but the last \<open>- k\<close> remain.
\<close>

definition py_slice_to :: "'a list \<Rightarrow> int \<Rightarrow> 'a list" where
  "py_slice_to xs k =
     (if 0 \<le> k then take (nat k) xs else take (length xs - nat (- k)) xs)"

text \<open>\<^verbatim>\<open>d.get(key, default)\<close>\<close>

definition dict_get :: "(string \<times> pyval) list \<Rightarrow> string \<Rightarrow> pyval \<Rightarrow> pyval" where
  "dict_get d k dflt = (case map_of d k of None \<Rightarrow> dflt | Some v \<Rightarrow> v)"

section \<open>Documents and the retrieval pipeline\<close>

text \<open>
  A document of the retrieval backend: its text and its metadata dictionary.
\<close>

record document =
  page_content :: string
  metadata :: "(string \<times> pyval) list"

text \<open>
  The pipeline is used through three attributes, each of which may be missing:
  the retriever (\<^verbatim>\<open>hybrid_retriever.invoke\<close>), the relevance checker
  (\<^verbatim>\<open>relevance_checker.filter_documents\<close>, which pairs documents with scores)
  and the collection of all documents. A collaborator returns or raises.
  \<open>pipeline_class\<close> is the name of the pipeline's class, of which Python puts
  the first 50 characters into the message of an \<^verbatim>\<open>AttributeError\<close>.
\<close>

record rag_pipeline =
  pipeline_class :: string
  hybrid_retriever :: "(string \<Rightarrow> exc + document list) option"
  relevance_checker :: "(string \<Rightarrow> document list \<Rightarrow> exc + (document \<times> pyval) list) option"
  documents :: "document list option"

text \<open>
  The calls made to the collaborators are recorded, in order, next to the result of a
  handler, so that "no collaborator is invoked" is a statement about the handler.
\<close>

datatype call = Invoke string | FilterDocuments string "document list"

type_synonym envelope = "(string \<times> pyval) list"

definition no_attribute :: "string \<Rightarrow> string \<Rightarrow> exc" where
  "no_attribute cls attr =
     Exc AttributeError
       ([CHR 0x27] @ take 50 cls @ [CHR 0x27] @ '' object has no attribute ''
        @ [CHR 0x27] @ attr @ [CHR 0x27])"

section \<open>The tool executor\<close>

text \<open>
  A handler returns an envelope or raises, and makes calls on the way. The
  log records written by \<^verbatim>\<open>logger\<close> are no part of any result and are left out;
  the text of every value of the model exists, so that writing the arguments into a
  record does not raise.
\<close>

text \<open>
  Both retrieval handlers read \<^verbatim>\<open>top_k\<close> in the same block:
  \<^verbatim>\<open>try: top_k = int(v)\<close>, \<^verbatim>\<open>except (ValueError, TypeError): top_k = d\<close>.
  An exception of another class leaves the block and the handler.
\<close>

definition int_or_default :: "pyval \<Rightarrow> int \<Rightarrow> exc + int" where
  "int_or_default v d =
     (case py_int v of
        Inr k \<Rightarrow> Inr k
      | Inl e \<Rightarrow>
          if exc_class e = ValueError \<or> exc_class e = TypeError then Inr d else Inl e)"

subsection \<open>\<^verbatim>\<open>_retrieve_documents\<close>\<close>

text \<open>
  The projection of a document that both retrieval handlers append to
  \<^verbatim>\<open>results\<close>.
\<close>

definition result_of :: "document \<Rightarrow> pyval" where
  "result_of doc =
     PDict [(''content'', PStr (page_content doc)),
            (''source'', dict_get (metadata doc) ''source'' (PStr ''Unknown'')),
            (''page'', dict_get (metadata doc) ''page'' (PStr ''?'')),
            (''type'', dict_get (metadata doc) ''type'' (PStr ''text''))]"

definition retrieve_documents ::
  "rag_pipeline \<Rightarrow> (string \<times> pyval) list \<Rightarrow> (exc + envelope) \<times> call list" where
  "retrieve_documents p args =
     (case int_or_default (dict_get args ''top_k'' (PInt 8)) 8 of
        Inl e \<Rightarrow> (Inl e, [])
      | Inr top_k \<Rightarrow>
          (let query = py_str (dict_get args ''query'' (dict_get args ''question'' (PStr [])))
           in if query = [] then
                (Inr [(''error'', PStr ''Query is required''), (''success'', PBool False)], [])
              else
                (case hybrid_retriever p of
                   None \<Rightarrow>
                     (Inr [(''error'', PStr ''RAG pipeline not initialized''),
                           (''success'', PBool False)], [])
                 | Some invoke \<Rightarrow>
                     (case invoke query of
                        Inl e \<Rightarrow> (Inl e, [Invoke query])
                      | Inr retrieved_docs \<Rightarrow>
                          if retrieved_docs = [] then
                            (Inr [(''success'', PBool True),
                                  (''message'', PStr ''No relevant documents found''),
                                  (''documents'', PList []),
                                  (''count'', PInt 0)], [Invoke query])
                          else
                            (let top_docs = py_slice_to retrieved_docs top_k
                             in case relevance_checker p of
                                  None \<Rightarrow>
                                    (Inl (no_attribute (pipeline_class p) ''relevance_checker''),
                                     [Invoke query])
                                | Some filter_documents \<Rightarrow>
                                    (case filter_documents query top_docs of
                                       Inl e \<Rightarrow>
                                         (Inl e, [Invoke query, FilterDocuments query top_docs])
                                     | Inr filtered \<Rightarrow>
                                         (let filtered_docs = map fst filtered;
                                              results = map result_of filtered_docs
                                          in (Inr [(''success'', PBool True),
                                                   (''message'',
                                                    PStr (''Retrieved ''
                                                          @ str_of_int (int (length results))
                                                          @ '' relevant documents'')),
                                                   (''documents'', PList results),
                                                   (''count'', PInt (int (length results)))],
                                              [Invoke query,
                                               FilterDocuments query top_docs]))))))))"

subsection \<open>\<^verbatim>\<open>_search_specific_document\<close>\<close>

text \<open>
  The comprehension that keeps the documents of one source. It raises at the first
  document whose \<^verbatim>\<open>source\<close> has no \<^verbatim>\<open>lower\<close> method.
\<close>

fun doc_specific :: "string \<Rightarrow> document list \<Rightarrow> exc + document list" where
  "doc_specific document_name [] = Inr []"
| "doc_specific document_name (doc # retrieved_docs) =
     (case py_lower (dict_get (metadata doc) ''source'' (PStr [])) of
        Inl e \<Rightarrow> Inl e
      | Inr source \<Rightarrow>
          (case doc_specific document_name retrieved_docs of
             Inl e \<Rightarrow> Inl e
           | Inr rest \<Rightarrow>
               Inr (if sublist (lower document_name) source then doc # rest else rest)))"

definition search_specific_document ::
  "rag_pipeline \<Rightarrow> (string \<times> pyval) list \<Rightarrow> (exc + envelope) \<times> call list" where
  "search_specific_document p args =
     (let document_name = py_str (dict_get args ''document_name'' (PStr []));
          query = py_str (dict_get args ''query'' (PStr []))
      in case int_or_default (dict_get args ''top_k'' (PInt 5)) 5 of
           Inl e \<Rightarrow> (Inl e, [])
         | Inr top_k \<Rightarrow>
             if document_name = [] \<or> query = [] then
               (Inr [(''error'', PStr ''Both document_name and query are required''),
                     (''success'', PBool False)], [])
             else
               (case hybrid_retriever p of
                  None \<Rightarrow>
                    (Inr [(''error'', PStr ''RAG pipeline not initialized''),
                          (''success'', PBool False)], [])
                | Some invoke \<Rightarrow>
                    (case invoke query of
                       Inl e \<Rightarrow> (Inl e, [Invoke query])
                     | Inr retrieved_docs \<Rightarrow>
                         (case doc_specific document_name retrieved_docs of
                            Inl e \<Rightarrow> (Inl e, [Invoke query])
                          | Inr scoped \<Rightarrow>
                              if scoped = [] then
                                (Inr [(''success'', PBool True),
                                      (''message'',
                                       PStr (''No content found in '' @ [CHR 0x27]
                                             @ document_name @ [CHR 0x27]
                                             @ '' for this query'')),
                                      (''documents'', PList []),
                                      (''count'', PInt 0),
                                      (''searched_document'', PStr document_name)],
                                 [Invoke query])
                              else
                                (let top_docs = py_slice_to scoped (top_k * 2)
                                 in case relevance_checker p of
                                      None \<Rightarrow>
                                        (Inl (no_attribute (pipeline_class p)
                                                ''relevance_checker''),
                                         [Invoke query])
                                    | Some filter_documents \<Rightarrow>
                                        (case filter_documents query top_docs of
                                           Inl e \<Rightarrow>
                                             (Inl e,
                                              [Invoke query, FilterDocuments query top_docs])
                                         | Inr filtered \<Rightarrow>
                                             (let filtered_docs =
                                                    map fst (py_slice_to filtered top_k);
                                                  results = map result_of filtered_docs
                                              in (Inr [(''success'', PBool True),
                                                       (''message'',
                                                        PStr (''Retrieved ''
                                                              @ str_of_int (int (length results))
                                                              @ '' chunks from '' @ [CHR 0x27]
                                                              @ document_name @ [CHR 0x27])),
                                                       (''documents'', PList results),
                                                       (''count'', PInt (int (length results))),
                                                       (''searched_document'',
                                                        PStr document_name)],
                                                  [Invoke query,
                                                   FilterDocuments query top_docs]))))))))"

subsection \<open>\<^verbatim>\<open>_get_document_list\<close>\<close>

text \<open>
  \<^verbatim>\<open>doc_info\<close> is a dictionary keyed by the \<^verbatim>\<open>source\<close> values, in insertion
  order. A key has to be hashable; two keys are the same key when Python's \<^verbatim>\<open>==\<close>
  holds, which compares booleans, integers and finite floats by their number, or when
  they are one object, which matters for \<^verbatim>\<open>nan\<close> alone: two \<^verbatim>\<open>nan\<close> objects
  are two keys.
\<close>

fun hashable :: "pyval \<Rightarrow> bool" where
  "hashable (PList xs) = False"
| "hashable (PDict kvs) = False"
| "hashable v = True"

fun number_of :: "pyval \<Rightarrow> (int \<times> int) option" where
  "number_of (PBool b) = Some (if b then 1 else 0, 0)"
| "number_of (PInt i) = Some (i, 0)"
| "number_of (PFloat (Finite m e r)) = Some (m, e)"
| "number_of v = None"

definition key_eq :: "pyval \<Rightarrow> pyval \<Rightarrow> bool" where
  "key_eq a b =
     (case (number_of a, number_of b) of
        (Some (m1, e1), Some (m2, e2)) \<Rightarrow>
          m1 * 2 ^ nat (e1 - min e1 e2) = m2 * 2 ^ nat (e2 - min e1 e2)
      | (None, None) \<Rightarrow> a = b
      | _ \<Rightarrow> False)"

text \<open>
  The entry kept for one source. The two sets are lists without duplicates, in the
  order of first insertion. Python iterates a set in an order of its own, which the
  code does not determine: of \<^verbatim>\<open>content_types\<close> in the result the model has the
  elements, and its order is no more than one of the possible ones. No statement
  below says anything about that order.
\<close>

record doc_entry =
  info_name :: pyval
  info_pages :: "string list"
  info_types :: "string list"
  info_chunk_count :: int

definition set_add :: "'a \<Rightarrow> 'a list \<Rightarrow> 'a list" where
  "set_add x xs = (if x \<in> set xs then xs else xs @ [x])"

definition unhashable :: "pyval \<Rightarrow> exc" where
  "unhashable v =
     Exc TypeError (''unhashable type: '' @ [CHR 0x27] @ py_type_name v @ [CHR 0x27])"

text \<open>One round of the loop over \<^verbatim>\<open>self.rag_pipeline.documents\<close>.\<close>

definition add_doc ::
  "(pyval \<times> doc_entry) list \<Rightarrow> document \<Rightarrow> exc + (pyval \<times> doc_entry) list" where
  "add_doc doc_info doc =
     (let source = dict_get (metadata doc) ''source'' (PStr ''Unknown'')
      in if \<not> hashable source then Inl (unhashable source)
         else
           (let doc_info1 =
                  (if list_ex (\<lambda>k. key_eq k source) (map fst doc_info) then doc_info
                   else doc_info @
                        [(source, \<lparr>info_name = source, info_pages = [], info_types = [],
                                   info_chunk_count = 0\<rparr>)]);
                page = py_str (dict_get (metadata doc) ''page'' (PStr ''?''));
                type = py_str (dict_get (metadata doc) ''type'' (PStr ''text''))
            in Inr (map (\<lambda>(k, info).
                          if key_eq k source
                          then (k, info\<lparr>info_pages := set_add page (info_pages info),
                                        info_types := set_add type (info_types info),
                                        info_chunk_count := info_chunk_count info + 1\<rparr>)
                          else (k, info))
                        doc_info1)))"

fun group_docs ::
  "(pyval \<times> doc_entry) list \<Rightarrow> document list \<Rightarrow> exc + (pyval \<times> doc_entry) list" where
  "group_docs doc_info [] = Inr doc_info"
| "group_docs doc_info (doc # docs) =
     (case add_doc doc_info doc of
        Inl e \<Rightarrow> Inl e
      | Inr doc_info1 \<Rightarrow> group_docs doc_info1 docs)"

definition catalog_entry :: "doc_entry \<Rightarrow> pyval" where
  "catalog_entry info =
     PDict [(''name'', info_name info),
            (''total_chunks'', PInt (info_chunk_count info)),
            (''page_count'', PInt (int (length (info_pages info)))),
            (''content_types'', PList (map PStr (info_types info)))]"

definition get_document_list ::
  "rag_pipeline \<Rightarrow> (string \<times> pyval) list \<Rightarrow> (exc + envelope) \<times> call list" where
  "get_document_list p args =
     (case documents p of
        None \<Rightarrow>
          (Inr [(''success'', PBool False),
                (''error'', PStr ''No documents loaded in the knowledge base'')], [])
      | Some all_docs \<Rightarrow>
          if all_docs = [] then
            (Inr [(''success'', PBool False),
                  (''error'', PStr ''No documents loaded in the knowledge base'')], [])
          else
            (case group_docs [] all_docs of
               Inl e \<Rightarrow> (Inl e, [])
             | Inr doc_info \<Rightarrow>
                 (let docs = map (\<lambda>(source, info). catalog_entry info) doc_info
                  in (Inr [(''success'', PBool True),
                           (''message'',
                            PStr (''Found '' @ str_of_int (int (length docs))
                                  @ '' documents in knowledge base'')),
                           (''documents'', PList docs),
                           (''total_documents'', PInt (int (length docs)))], []))))"

subsection \<open>\<^verbatim>\<open>execute_tool\<close>\<close>

text \<open>
  The dispatch is the body of \<^verbatim>\<open>try\<close>; \<open>caught\<close> is
  \<^verbatim>\<open>except Exception as e\<close>, which turns what a handler raised into an envelope.
\<close>

definition caught :: "(exc + envelope) \<times> call list \<Rightarrow> envelope \<times> call list" where
  "caught outcome =
     (case outcome of
        (Inr result, calls) \<Rightarrow> (result, calls)
      | (Inl e, calls) \<Rightarrow> ([(''error'', PStr (exc_msg e)), (''success'', PBool False)], calls))"

definition execute_tool ::
  "rag_pipeline \<Rightarrow> string \<Rightarrow> (string \<times> pyval) list \<Rightarrow> envelope \<times> call list" where
  "execute_tool p tool_name tool_args =
     caught
       (if tool_name = ''retrieve_documents'' then retrieve_documents p tool_args
        else if tool_name = ''search_specific_document'' then
          search_specific_document p tool_args
        else if tool_name = ''get_document_list'' then get_document_list p tool_args
        else (Inr [(''error'', PStr (''Unknown tool: '' @ tool_name)),
                   (''success'', PBool False)], []))"

section \<open>The tool catalogue\<close>

definition TOOL_SCHEMAS :: "pyval list" where
  "TOOL_SCHEMAS =
     [PDict [(''name'', PStr ''retrieve_documents''),
             (''description'',
              PStr (''Retrieve relevant documents from the wetland conservation knowledge base. ''
                    @ ''Use this tool when you need to find information to answer the user''
                    @ [CHR 0x27] @ ''s question. This searches across all available PDF documents.'')),
             (''parameters'',
              PDict [(''type'', PStr ''OBJECT''),
                     (''properties'',
                      PDict [(''query'',
                              PDict [(''type'', PStr ''STRING''),
                                     (''description'',
                                      PStr (''The search query to find relevant documents. ''
                                            @ ''Should be a clear, specific question or topic.''))]),
                             (''top_k'',
                              PDict [(''type'', PStr ''INTEGER''),
                                     (''description'',
                                      PStr (''Number of top documents to retrieve ''
                                            @ ''(default: 8, max: 15)''))])]),
                     (''required'', PList [PStr ''query''])])],
      PDict [(''name'', PStr ''search_specific_document''),
             (''description'',
              PStr (''Search for information within a specific document only. Use this when ''
                    @ ''the user explicitly mentions a document name (e.g., '' @ [CHR 0x27]
                    @ ''National Wetland Policy'' @ [CHR 0x27] @ '', '' @ [CHR 0x27]
                    @ ''Metro Colombo Strategy'' @ [CHR 0x27]
                    @ '') or asks to use only a specific source.'')),
             (''parameters'',
              PDict [(''type'', PStr ''OBJECT''),
                     (''properties'',
                      PDict [(''document_name'',
                              PDict [(''type'', PStr ''STRING''),
                                     (''description'',
                                      PStr (''The name of the specific document to search within ''
                                            @ ''(e.g., '' @ [CHR 0x27]
                                            @ ''National Wetland Policy.pdf'' @ [CHR 0x27]
                                            @ '')''))]),
                             (''query'',
                              PDict [(''type'', PStr ''STRING''),
                                     (''description'',
                                      PStr ''The search query within that specific document'')]),
                             (''top_k'',
                              PDict [(''type'', PStr ''INTEGER''),
                                     (''description'',
                                      PStr (''Number of top chunks to retrieve from this document ''
                                            @ ''(default: 5)''))])]),
                     (''required'', PList [PStr ''document_name'', PStr ''query''])])],
      PDict [(''name'', PStr ''get_document_list''),
             (''description'',
              PStr (''Get a list of all available documents in the knowledge base with their ''
                    @ ''metadata. Use this when the user asks what documents are available or ''
                    @ ''wants to know the sources.'')),
             (''parameters'',
              PDict [(''type'', PStr ''OBJECT''),
                     (''properties'', PDict []),
                     (''required'', PList [])])]]"

definition get_tool_schemas_for_gemini :: "pyval list" where
  "get_tool_schemas_for_gemini = TOOL_SCHEMAS"


section \<open>The formatter\<close>

text \<open>
  \<^verbatim>\<open>format_tool_result_for_prompt\<close> reads a result dictionary with
  \<^verbatim>\<open>len\<close>, iteration and subscripts, each of which raises on a value of the wrong
  kind; nothing in the formatter catches. \<^verbatim>\<open>json.dumps\<close> of the last branch belongs
  to Python's library and is a parameter.
\<close>

definition py_len :: "pyval \<Rightarrow> exc + int" where
  "py_len v =
     (case v of
        PStr s \<Rightarrow> Inr (int (length s))
      | PList xs \<Rightarrow> Inr (int (length xs))
      | PDict kvs \<Rightarrow> Inr (int (length kvs))
      | _ \<Rightarrow>
          Inl (Exc TypeError
                 (''object of type '' @ [CHR 0x27] @ py_type_name v @ [CHR 0x27]
                  @ '' has no len()'')))"

definition py_iter :: "pyval \<Rightarrow> exc + pyval list" where
  "py_iter v =
     (case v of
        PStr s \<Rightarrow> Inr (map (\<lambda>c. PStr [c]) s)
      | PList xs \<Rightarrow> Inr xs
      | PDict kvs \<Rightarrow> Inr (map (\<lambda>kv. PStr (fst kv)) kvs)
      | _ \<Rightarrow>
          Inl (Exc TypeError
                 ([CHR 0x27] @ py_type_name v @ [CHR 0x27] @ '' object is not iterable'')))"

text \<open>\<^verbatim>\<open>doc[key]\<close> with a string key.\<close>

definition py_getitem :: "pyval \<Rightarrow> string \<Rightarrow> exc + pyval" where
  "py_getitem v k =
     (case v of
        PDict kvs \<Rightarrow>
          (case map_of kvs k of
             Some x \<Rightarrow> Inr x
           | None \<Rightarrow> Inl (Exc KeyError (str_repr k)))
      | PStr s \<Rightarrow>
          Inl (Exc TypeError
                 (''string indices must be integers, not '' @ [CHR 0x27] @ ''str'' @ [CHR 0x27]))
      | PList xs \<Rightarrow>
          Inl (Exc TypeError ''list indices must be integers or slices, not str'')
      | _ \<Rightarrow>
          Inl (Exc TypeError
                 ([CHR 0x27] @ py_type_name v @ [CHR 0x27] @ '' object is not subscriptable'')))"

text \<open>The lines that the loop over \<^verbatim>\<open>enumerate(docs, 1)\<close> appends for one document.\<close>

definition format_doc :: "int \<Rightarrow> pyval \<Rightarrow> exc + string" where
  "format_doc i doc =
     (case py_getitem doc ''source'' of Inl e \<Rightarrow> Inl e | Inr source \<Rightarrow>
      case py_getitem doc ''page'' of Inl e \<Rightarrow> Inl e | Inr page \<Rightarrow>
      case py_getitem doc ''type'' of Inl e \<Rightarrow> Inl e | Inr type \<Rightarrow>
      case py_getitem doc ''content'' of Inl e \<Rightarrow> Inl e | Inr content \<Rightarrow>
        Inr (''--- Document '' @ str_of_int i @ '' ---'' @ [CHR 0x0A]
             @ ''Source: '' @ py_str source @ '', Page: '' @ py_str page
             @ '', Type: '' @ py_str type @ [CHR 0x0A]
             @ ''Content: '' @ py_str content @ [CHR 0x0A, CHR 0x0A]))"

fun format_docs :: "int \<Rightarrow> pyval list \<Rightarrow> exc + string" where
  "format_docs i [] = Inr []"
| "format_docs i (doc # docs) =
     (case format_doc i doc of
        Inl e \<Rightarrow> Inl e
      | Inr block \<Rightarrow>
          (case format_docs (i + 1) docs of
             Inl e \<Rightarrow> Inl e
           | Inr rest \<Rightarrow> Inr (block @ rest)))"

definition format_entry :: "pyval \<Rightarrow> exc + string" where
  "format_entry doc =
     (case py_getitem doc ''name'' of Inl e \<Rightarrow> Inl e | Inr name \<Rightarrow>
      case py_getitem doc ''total_chunks'' of Inl e \<Rightarrow> Inl e | Inr total_chunks \<Rightarrow>
      case py_getitem doc ''page_count'' of Inl e \<Rightarrow> Inl e | Inr page_count \<Rightarrow>
        Inr (''- '' @ py_str name @ '': '' @ py_str total_chunks @ '' chunks, ''
             @ py_str page_count @ '' pages'' @ [CHR 0x0A]))"

fun format_entries :: "pyval list \<Rightarrow> exc + string" where
  "format_entries [] = Inr []"
| "format_entries (doc # docs) =
     (case format_entry doc of
        Inl e \<Rightarrow> Inl e
      | Inr line \<Rightarrow>
          (case format_entries docs of
             Inl e \<Rightarrow> Inl e
           | Inr rest \<Rightarrow> Inr (line @ rest)))"

definition format_tool_result_for_prompt ::
  "(envelope \<Rightarrow> exc + string) \<Rightarrow> string \<Rightarrow> envelope \<Rightarrow> exc + string" where
  "format_tool_result_for_prompt json_dumps tool_name result =
     (if \<not> py_bool (dict_get result ''success'' (PBool False)) then
        Inr (''[Tool Error - '' @ tool_name @ '']: ''
             @ py_str (dict_get result ''error'' (PStr ''Unknown error'')))
      else if tool_name = ''retrieve_documents'' \<or> tool_name = ''search_specific_document'' then
        (let docs = dict_get result ''documents'' (PList [])
         in if \<not> py_bool docs then
              Inr (''['' @ tool_name @ '']: No relevant documents found.'')
            else
              (case py_len docs of Inl e \<Rightarrow> Inl e | Inr n \<Rightarrow>
               case py_iter docs of Inl e \<Rightarrow> Inl e | Inr items \<Rightarrow>
               case format_docs 1 items of Inl e \<Rightarrow> Inl e | Inr blocks \<Rightarrow>
                 Inr (''['' @ tool_name @ '']: Retrieved '' @ str_of_int n @ '' documents:''
                      @ [CHR 0x0A, CHR 0x0A] @ blocks)))
      else if tool_name = ''get_document_list'' then
        (let docs = dict_get result ''documents'' (PList [])
         in case py_iter docs of Inl e \<Rightarrow> Inl e | Inr items \<Rightarrow>
            case format_entries items of Inl e \<Rightarrow> Inl e | Inr lines \<Rightarrow>
              Inr (''['' @ tool_name @ '']: Available documents:''
                   @ [CHR 0x0A, CHR 0x0A] @ lines))
      else
        (case json_dumps result of
           Inl e \<Rightarrow> Inl e
         | Inr dump \<Rightarrow> Inr (''['' @ tool_name @ '']: '' @ dump)))"

section \<open>Vocabulary of the claims\<close>

text \<open>
  What the claims say about an envelope, a list or a document, in their own words:
  the fields of an envelope, "the first \<open>n\<close> elements" of a sequence, the sources of a
  collection "in first-seen order", and "contains the name as a case-insensitive
  substring".
\<close>

definition field :: "envelope \<Rightarrow> string \<Rightarrow> pyval option" where
  "field result k = map_of result k"

text \<open>The two shapes of an envelope.\<close>

definition success_shape :: "envelope \<Rightarrow> bool" where
  "success_shape result =
     (field result ''success'' = Some (PBool True) \<and> field result ''error'' = None \<and>
      (case field result ''documents'' of Some (PList docs) \<Rightarrow> True | _ \<Rightarrow> False))"

definition failure_shape :: "envelope \<Rightarrow> bool" where
  "failure_shape result =
     (field result ''success'' = Some (PBool False) \<and>
      (case field result ''error'' of Some (PStr msg) \<Rightarrow> True | _ \<Rightarrow> False) \<and>
      field result ''documents'' = None)"

text \<open>
  A \<^verbatim>\<open>top_k\<close> argument is an infinity when it is the float \<^verbatim>\<open>inf\<close> or
  \<^verbatim>\<open>-inf\<close>.
\<close>

definition infinite_top_k :: "(string \<times> pyval) list \<Rightarrow> bool" where
  "infinite_top_k args =
     (case map_of args ''top_k'' of Some (PFloat (Infinity neg)) \<Rightarrow> True | _ \<Rightarrow> False)"

definition first_n :: "int \<Rightarrow> 'a list \<Rightarrow> 'a list" where
  "first_n n xs = take (nat n) xs"

definition first_seen :: "'a list \<Rightarrow> 'a list" where
  "first_seen xs = rev (remdups (rev xs))"

definition source_of :: "document \<Rightarrow> pyval" where
  "source_of doc = dict_get (metadata doc) ''source'' (PStr ''Unknown'')"

definition page_of :: "document \<Rightarrow> string" where
  "page_of doc = py_str (dict_get (metadata doc) ''page'' (PStr ''?''))"

text \<open>
  The catalogue of a collection as the specification describes it: the documents are
  grouped by \<open>source\<close>; a group has the distinct pages and the distinct types of its
  documents, as strings, and the number of its documents; there is one entry for each
  group, in first-seen order.
\<close>

definition type_of :: "document \<Rightarrow> string" where
  "type_of doc = py_str (dict_get (metadata doc) ''type'' (PStr ''text''))"

definition group_of :: "document list \<Rightarrow> pyval \<Rightarrow> document list" where
  "group_of docs source = filter (\<lambda>doc. source_of doc = source) docs"

definition grouped_entry :: "document list \<Rightarrow> pyval \<Rightarrow> doc_entry" where
  "grouped_entry docs source =
     \<lparr>info_name = source,
      info_pages = first_seen (map page_of (group_of docs source)),
      info_types = first_seen (map type_of (group_of docs source)),
      info_chunk_count = int (length (group_of docs source))\<rparr>"

definition grouped :: "document list \<Rightarrow> (pyval \<times> doc_entry) list" where
  "grouped docs = map (\<lambda>source. (source, grouped_entry docs source))
                      (first_seen (map source_of docs))"

definition string_sources :: "document list \<Rightarrow> bool" where
  "string_sources docs =
     list_all (\<lambda>doc. case source_of doc of PStr s \<Rightarrow> True | _ \<Rightarrow> False) docs"

text \<open>A field of an entry of \<open>documents\<close>, and the \<open>total_chunks\<close> of an entry.\<close>

definition entry_field :: "pyval \<Rightarrow> string \<Rightarrow> pyval option" where
  "entry_field entry k = (case entry of PDict kvs \<Rightarrow> map_of kvs k | _ \<Rightarrow> None)"

definition total_chunks :: "pyval \<Rightarrow> int" where
  "total_chunks entry = (case entry_field entry ''total_chunks'' of Some (PInt n) \<Rightarrow> n | _ \<Rightarrow> 0)"

definition names_document :: "string \<Rightarrow> pyval \<Rightarrow> bool" where
  "names_document document_name source =
     (case source of PStr s \<Rightarrow> sublist (lower document_name) (lower s) | _ \<Rightarrow> False)"

definition has_source :: "document \<Rightarrow> bool" where
  "has_source doc = (case map_of (metadata doc) ''source'' of None \<Rightarrow> False | Some v \<Rightarrow> True)"

section \<open>Example inputs\<close>

text \<open>
  Chunks of two files, \<^verbatim>\<open>A.pdf\<close> and \<^verbatim>\<open>B.pdf\<close>; a relevance checker that keeps
  every candidate; pipelines whose retriever returns five chunks, returns nothing, or
  raises (once with the text of the dispatcher's own error), and one whose relevance
  checker raises.
\<close>

definition chunk :: "string \<Rightarrow> string \<Rightarrow> int \<Rightarrow> document" where
  "chunk text file n =
     \<lparr>page_content = text, metadata = [(''source'', PStr file), (''page'', PInt n)]\<rparr>"

definition corpus :: "document list" where
  "corpus = [chunk ''marsh'' ''A.pdf'' 1, chunk ''fen'' ''A.pdf'' 2, chunk ''bog'' ''B.pdf'' 1]"

definition ranking :: "document list" where
  "ranking =
     [chunk ''marsh'' ''A.pdf'' 1, chunk ''fen'' ''A.pdf'' 2, chunk ''bog'' ''B.pdf'' 1,
      chunk ''mire'' ''A.pdf'' 3, chunk ''swamp'' ''A.pdf'' 4]"

definition keep_all :: "string \<Rightarrow> document list \<Rightarrow> exc + (document \<times> pyval) list" where
  "keep_all query docs = Inr (map (\<lambda>doc. (doc, PFloat (Finite 1 0 ''1.0''))) docs)"

definition example_pipeline :: rag_pipeline where
  "example_pipeline =
     \<lparr>pipeline_class = ''RAGPipeline'',
      hybrid_retriever = Some (\<lambda>query. Inr ranking),
      relevance_checker = Some keep_all,
      documents = Some corpus\<rparr>"

definition empty_pipeline :: rag_pipeline where
  "empty_pipeline =
     \<lparr>pipeline_class = ''RAGPipeline'',
      hybrid_retriever = Some (\<lambda>query. Inr []),
      relevance_checker = Some keep_all,
      documents = Some []\<rparr>"

definition failing_pipeline :: rag_pipeline where
  "failing_pipeline =
     \<lparr>pipeline_class = ''RAGPipeline'',
      hybrid_retriever = Some (\<lambda>query. Inl (Exc OtherException ''index unavailable'')),
      relevance_checker = Some keep_all,
      documents = None\<rparr>"


definition unreliable_pipeline :: rag_pipeline where
  "unreliable_pipeline =
     \<lparr>pipeline_class = ''RAGPipeline'',
      hybrid_retriever = Some (\<lambda>query. Inr ranking),
      relevance_checker = Some (\<lambda>query docs. Inl (Exc OtherException ''scoring failed'')),
      documents = Some corpus\<rparr>"

section \<open>The dispatch of \<open>execute_tool\<close>\<close>

lemma execute_tool_retrieve:
  "execute_tool p ''retrieve_documents'' args = caught (retrieve_documents p args)"
  by (simp add: execute_tool_def)

lemma execute_tool_search:
  "execute_tool p ''search_specific_document'' args = caught (search_specific_document p args)"
  by (simp add: execute_tool_def)

lemma execute_tool_list:
  "execute_tool p ''get_document_list'' args = caught (get_document_list p args)"
  by (simp add: execute_tool_def)

lemma execute_tool_unknown:
  assumes "tool_name \<noteq> ''retrieve_documents''" and "tool_name \<noteq> ''search_specific_document''"
    and "tool_name \<noteq> ''get_document_list''"
  shows "execute_tool p tool_name args =
         ([(''error'', PStr (''Unknown tool: '' @ tool_name)), (''success'', PBool False)], [])"
  using assms by (simp add: execute_tool_def caught_def)

lemma caught_Inl:
  "caught (Inl e, calls) = ([(''error'', PStr (exc_msg e)), (''success'', PBool False)], calls)"
  by (simp add: caught_def)

lemma caught_Inr: "caught (Inr result, calls) = (result, calls)"
  by (simp add: caught_def)

section \<open>The shape of an envelope\<close>

lemma failure_shape_error: "failure_shape [(''error'', PStr msg), (''success'', PBool False)]"
  by (simp add: failure_shape_def field_def)

lemma shapes_exclusive: "success_shape result \<Longrightarrow> \<not> failure_shape result"
  by (simp add: success_shape_def failure_shape_def)

lemma retrieve_documents_shape:
  "retrieve_documents p args = (Inr result, calls) \<Longrightarrow> success_shape result \<or> failure_shape result"
  unfolding retrieve_documents_def success_shape_def failure_shape_def field_def
  by (auto simp: Let_def split: sum.splits option.splits if_splits)

lemma search_specific_document_shape:
  "search_specific_document p args = (Inr result, calls) \<Longrightarrow>
   success_shape result \<or> failure_shape result"
  unfolding search_specific_document_def success_shape_def failure_shape_def field_def
  by (auto simp: Let_def split: sum.splits option.splits if_splits)

lemma get_document_list_shape:
  "get_document_list p args = (Inr result, calls) \<Longrightarrow> success_shape result \<or> failure_shape result"
  unfolding get_document_list_def success_shape_def failure_shape_def field_def
  by (auto simp: Let_def split: sum.splits option.splits if_splits)

lemma caught_shape:
  assumes "\<And>result calls. outcome = (Inr result, calls) \<Longrightarrow>
             success_shape result \<or> failure_shape result"
  shows "success_shape (fst (caught outcome)) \<or> failure_shape (fst (caught outcome))"
proof (cases outcome)
  case (Pair x calls)
  then show ?thesis
    using assms by (cases x) (simp_all add: caught_Inl caught_Inr failure_shape_error)
qed

lemma execute_tool_shape:
  "success_shape (fst (execute_tool p tool_name tool_args)) \<or>
   failure_shape (fst (execute_tool p tool_name tool_args))"
proof -
  consider (retrieve) "tool_name = ''retrieve_documents''"
    | (search) "tool_name = ''search_specific_document''"
    | (list) "tool_name = ''get_document_list''"
    | (unknown) "tool_name \<noteq> ''retrieve_documents''" "tool_name \<noteq> ''search_specific_document''"
        "tool_name \<noteq> ''get_document_list''"
    by blast
  then show ?thesis
  proof cases
    case retrieve
    then show ?thesis
      using caught_shape [of "retrieve_documents p tool_args"] retrieve_documents_shape
      by (simp add: execute_tool_retrieve)
  next
    case search
    then show ?thesis
      using caught_shape [of "search_specific_document p tool_args"]
        search_specific_document_shape
      by (simp add: execute_tool_search)
  next
    case list
    then show ?thesis
      using caught_shape [of "get_document_list p tool_args"] get_document_list_shape
      by (simp add: execute_tool_list)
  next
    case unknown
    then show ?thesis
      by (simp add: execute_tool_unknown failure_shape_error)
  qed
qed

text \<open>
  Claim C1. For every tool name, known or unknown, and every argument mapping, the
  envelope that \<open>execute_tool\<close> returns has exactly one of two shapes: \<open>success\<close>
  is true, there is no \<open>error\<close> field and there is a \<open>documents\<close> field; or
  \<open>success\<close> is false, there is an \<open>error\<close> field and no \<open>documents\<close> field.
\<close>

theorem execute_tool_one_shape:
  "success_shape (fst (execute_tool p tool_name tool_args)) \<noteq>
   failure_shape (fst (execute_tool p tool_name tool_args))"
  using execute_tool_shape [of p tool_name tool_args] shapes_exclusive by blast

section \<open>The coercion of \<open>top_k\<close>\<close>

lemma int_or_default_cases:
  "(\<exists>k. int_or_default v d = Inr k) \<or>
   (\<exists>neg. v = PFloat (Infinity neg)) \<and>
   int_or_default v d = Inl (Exc OverflowError ''cannot convert float infinity to integer'')"
proof (cases v)
  case (PFloat f)
  then show ?thesis by (cases f) (simp_all add: int_or_default_def)
next
  case (PStr s)
  then show ?thesis by (cases "int_of_str s") (simp_all add: int_or_default_def)
qed (simp_all add: int_or_default_def int_type_error_def)

lemma int_or_default_finite:
  assumes "\<And>neg. v \<noteq> PFloat (Infinity neg)"
  shows "\<exists>k. int_or_default v d = Inr k"
  using int_or_default_cases [of v d] assms by blast

lemma int_or_default_top_k:
  assumes "\<not> infinite_top_k args"
  shows "\<exists>k. int_or_default (dict_get args ''top_k'' (PInt d)) d = Inr k"
proof (rule int_or_default_finite)
  fix neg
  show "dict_get args ''top_k'' (PInt d) \<noteq> PFloat (Infinity neg)"
    using assms by (auto simp: infinite_top_k_def dict_get_def split: option.splits)
qed

section \<open>The retrieval handlers, step by step\<close>

lemma retrieve_documents_retriever_raises:
  assumes "int_or_default (dict_get args ''top_k'' (PInt 8)) 8 = Inr k"
    and "py_str (dict_get args ''query'' (dict_get args ''question'' (PStr []))) = q" and "q \<noteq> []"
    and "hybrid_retriever p = Some invoke" and "invoke q = Inl e"
  shows "retrieve_documents p args = (Inl e, [Invoke q])"
  using assms by (simp add: retrieve_documents_def)

lemma retrieve_documents_empty:
  assumes "int_or_default (dict_get args ''top_k'' (PInt 8)) 8 = Inr k"
    and "py_str (dict_get args ''query'' (dict_get args ''question'' (PStr []))) = q" and "q \<noteq> []"
    and "hybrid_retriever p = Some invoke" and "invoke q = Inr []"
  shows "retrieve_documents p args =
     (Inr [(''success'', PBool True), (''message'', PStr ''No relevant documents found''),
           (''documents'', PList []), (''count'', PInt 0)], [Invoke q])"
  using assms by (simp add: retrieve_documents_def)

lemma retrieve_documents_checker_raises:
  assumes "int_or_default (dict_get args ''top_k'' (PInt 8)) 8 = Inr k"
    and "py_str (dict_get args ''query'' (dict_get args ''question'' (PStr []))) = q" and "q \<noteq> []"
    and "hybrid_retriever p = Some invoke" and "invoke q = Inr retrieved_docs"
    and "retrieved_docs \<noteq> []"
    and "relevance_checker p = Some filter_documents"
    and "filter_documents q (py_slice_to retrieved_docs k) = Inl e"
  shows "retrieve_documents p args =
     (Inl e, [Invoke q, FilterDocuments q (py_slice_to retrieved_docs k)])"
  using assms by (simp add: retrieve_documents_def)

lemma retrieve_documents_filtered:
  assumes "int_or_default (dict_get args ''top_k'' (PInt 8)) 8 = Inr k"
    and "py_str (dict_get args ''query'' (dict_get args ''question'' (PStr []))) = q" and "q \<noteq> []"
    and "hybrid_retriever p = Some invoke" and "invoke q = Inr retrieved_docs"
    and "retrieved_docs \<noteq> []"
    and "relevance_checker p = Some filter_documents"
    and "filter_documents q (py_slice_to retrieved_docs k) = Inr filtered"
  shows "retrieve_documents p args =
     (Inr [(''success'', PBool True),
           (''message'',
            PStr (''Retrieved '' @ str_of_int (int (length filtered)) @ '' relevant documents'')),
           (''documents'', PList (map result_of (map fst filtered))),
           (''count'', PInt (int (length filtered)))],
      [Invoke q, FilterDocuments q (py_slice_to retrieved_docs k)])"
  using assms by (simp add: retrieve_documents_def)

lemma search_specific_document_retriever_raises:
  assumes "int_or_default (dict_get args ''top_k'' (PInt 5)) 5 = Inr k"
    and "py_str (dict_get args ''document_name'' (PStr [])) = name" and "name \<noteq> []"
    and "py_str (dict_get args ''query'' (PStr [])) = q" and "q \<noteq> []"
    and "hybrid_retriever p = Some invoke" and "invoke q = Inl e"
  shows "search_specific_document p args = (Inl e, [Invoke q])"
  using assms by (simp add: search_specific_document_def)

lemma search_specific_document_empty:
  assumes "int_or_default (dict_get args ''top_k'' (PInt 5)) 5 = Inr k"
    and "py_str (dict_get args ''document_name'' (PStr [])) = name" and "name \<noteq> []"
    and "py_str (dict_get args ''query'' (PStr [])) = q" and "q \<noteq> []"
    and "hybrid_retriever p = Some invoke" and "invoke q = Inr retrieved_docs"
    and "doc_specific name retrieved_docs = Inr []"
  shows "search_specific_document p args =
     (Inr [(''success'', PBool True),
           (''message'',
            PStr (''No content found in '' @ [CHR 0x27] @ name @ [CHR 0x27]
                  @ '' for this query'')),
           (''documents'', PList []), (''count'', PInt 0),
           (''searched_document'', PStr name)], [Invoke q])"
  using assms by (simp add: search_specific_document_def)

lemma search_specific_document_checker_raises:
  assumes "int_or_default (dict_get args ''top_k'' (PInt 5)) 5 = Inr k"
    and "py_str (dict_get args ''document_name'' (PStr [])) = name" and "name \<noteq> []"
    and "py_str (dict_get args ''query'' (PStr [])) = q" and "q \<noteq> []"
    and "hybrid_retriever p = Some invoke" and "invoke q = Inr retrieved_docs"
    and "doc_specific name retrieved_docs = Inr scoped" and "scoped \<noteq> []"
    and "relevance_checker p = Some filter_documents"
    and "filter_documents q (py_slice_to scoped (k * 2)) = Inl e"
  shows "search_specific_document p args =
     (Inl e, [Invoke q, FilterDocuments q (py_slice_to scoped (k * 2))])"
  using assms by (simp add: search_specific_document_def)

lemma search_specific_document_filtered:
  assumes "int_or_default (dict_get args ''top_k'' (PInt 5)) 5 = Inr k"
    and "py_str (dict_get args ''document_name'' (PStr [])) = name" and "name \<noteq> []"
    and "py_str (dict_get args ''query'' (PStr [])) = q" and "q \<noteq> []"
    and "hybrid_retriever p = Some invoke" and "invoke q = Inr retrieved_docs"
    and "doc_specific name retrieved_docs = Inr scoped" and "scoped \<noteq> []"
    and "relevance_checker p = Some filter_documents"
    and "filter_documents q (py_slice_to scoped (k * 2)) = Inr filtered"
  shows "search_specific_document p args =
     (Inr [(''success'', PBool True),
           (''message'',
            PStr (''Retrieved '' @ str_of_int (int (length (py_slice_to filtered k)))
                  @ '' chunks from '' @ [CHR 0x27] @ name @ [CHR 0x27])),
           (''documents'', PList (map result_of (map fst (py_slice_to filtered k)))),
           (''count'', PInt (int (length (py_slice_to filtered k)))),
           (''searched_document'', PStr name)],
      [Invoke q, FilterDocuments q (py_slice_to scoped (k * 2))])"
  using assms by (simp add: search_specific_document_def)

section \<open>What is caught\<close>

text \<open>
  Claim C2. Whatever a handler raises, \<open>execute_tool\<close> returns the envelope
  \<open>{error: str(e), success: False}\<close>; this holds in particular for what the
  retriever or the relevance checker raises when either retrieval handler calls it,
  which leaves the handler as it was raised. (That \<open>execute_tool\<close> returns an
  envelope for every tool name and every argument mapping is its type: the dispatch
  is the whole body of \<^verbatim>\<open>try\<close>.)
\<close>

theorem execute_tool_catches:
  "(retrieve_documents p args = (Inl e, calls) \<longrightarrow>
      execute_tool p ''retrieve_documents'' args =
        ([(''error'', PStr (exc_msg e)), (''success'', PBool False)], calls)) \<and>
   (search_specific_document p args = (Inl e, calls) \<longrightarrow>
      execute_tool p ''search_specific_document'' args =
        ([(''error'', PStr (exc_msg e)), (''success'', PBool False)], calls)) \<and>
   (get_document_list p args = (Inl e, calls) \<longrightarrow>
      execute_tool p ''get_document_list'' args =
        ([(''error'', PStr (exc_msg e)), (''success'', PBool False)], calls)) \<and>
   (int_or_default (dict_get args ''top_k'' (PInt 8)) 8 = Inr k \<and>
    py_str (dict_get args ''query'' (dict_get args ''question'' (PStr []))) = q \<and> q \<noteq> [] \<and>
    hybrid_retriever p = Some invoke \<and> invoke q = Inl e \<longrightarrow>
      execute_tool p ''retrieve_documents'' args =
        ([(''error'', PStr (exc_msg e)), (''success'', PBool False)], [Invoke q])) \<and>
   (int_or_default (dict_get args ''top_k'' (PInt 8)) 8 = Inr k \<and>
    py_str (dict_get args ''query'' (dict_get args ''question'' (PStr []))) = q \<and> q \<noteq> [] \<and>
    hybrid_retriever p = Some invoke \<and> invoke q = Inr retrieved_docs \<and>
    retrieved_docs \<noteq> [] \<and> relevance_checker p = Some filter_documents \<and>
    filter_documents q (py_slice_to retrieved_docs k) = Inl e \<longrightarrow>
      execute_tool p ''retrieve_documents'' args =
        ([(''error'', PStr (exc_msg e)), (''success'', PBool False)],
         [Invoke q, FilterDocuments q (py_slice_to retrieved_docs k)])) \<and>
   (int_or_default (dict_get args ''top_k'' (PInt 5)) 5 = Inr k \<and>
    py_str (dict_get args ''document_name'' (PStr [])) = name \<and> name \<noteq> [] \<and>
    py_str (dict_get args ''query'' (PStr [])) = q \<and> q \<noteq> [] \<and>
    hybrid_retriever p = Some invoke \<and> invoke q = Inl e \<longrightarrow>
      execute_tool p ''search_specific_document'' args =
        ([(''error'', PStr (exc_msg e)), (''success'', PBool False)], [Invoke q])) \<and>
   (int_or_default (dict_get args ''top_k'' (PInt 5)) 5 = Inr k \<and>
    py_str (dict_get args ''document_name'' (PStr [])) = name \<and> name \<noteq> [] \<and>
    py_str (dict_get args ''query'' (PStr [])) = q \<and> q \<noteq> [] \<and>
    hybrid_retriever p = Some invoke \<and> invoke q = Inr retrieved_docs \<and>
    doc_specific name retrieved_docs = Inr scoped \<and> scoped \<noteq> [] \<and>
    relevance_checker p = Some filter_documents \<and>
    filter_documents q (py_slice_to scoped (k * 2)) = Inl e \<longrightarrow>
      execute_tool p ''search_specific_document'' args =
        ([(''error'', PStr (exc_msg e)), (''success'', PBool False)],
         [Invoke q, FilterDocuments q (py_slice_to scoped (k * 2))]))"
proof (intro conjI impI)
  assume "retrieve_documents p args = (Inl e, calls)"
  then show "execute_tool p ''retrieve_documents'' args =
        ([(''error'', PStr (exc_msg e)), (''success'', PBool False)], calls)"
    by (simp add: execute_tool_retrieve caught_Inl)
next
  assume "search_specific_document p args = (Inl e, calls)"
  then show "execute_tool p ''search_specific_document'' args =
        ([(''error'', PStr (exc_msg e)), (''success'', PBool False)], calls)"
    by (simp add: execute_tool_search caught_Inl)
next
  assume "get_document_list p args = (Inl e, calls)"
  then show "execute_tool p ''get_document_list'' args =
        ([(''error'', PStr (exc_msg e)), (''success'', PBool False)], calls)"
    by (simp add: execute_tool_list caught_Inl)
next
  assume "int_or_default (dict_get args ''top_k'' (PInt 8)) 8 = Inr k \<and>
    py_str (dict_get args ''query'' (dict_get args ''question'' (PStr []))) = q \<and> q \<noteq> [] \<and>
    hybrid_retriever p = Some invoke \<and> invoke q = Inl e"
  then have "retrieve_documents p args = (Inl e, [Invoke q])"
    by (intro retrieve_documents_retriever_raises [where k = k and invoke = invoke]) simp_all
  then show "execute_tool p ''retrieve_documents'' args =
        ([(''error'', PStr (exc_msg e)), (''success'', PBool False)], [Invoke q])"
    by (simp add: execute_tool_retrieve caught_Inl)
next
  assume "int_or_default (dict_get args ''top_k'' (PInt 8)) 8 = Inr k \<and>
    py_str (dict_get args ''query'' (dict_get args ''question'' (PStr []))) = q \<and> q \<noteq> [] \<and>
    hybrid_retriever p = Some invoke \<and> invoke q = Inr retrieved_docs \<and>
    retrieved_docs \<noteq> [] \<and> relevance_checker p = Some filter_documents \<and>
    filter_documents q (py_slice_to retrieved_docs k) = Inl e"
  then have "retrieve_documents p args =
     (Inl e, [Invoke q, FilterDocuments q (py_slice_to retrieved_docs k)])"
    by (intro retrieve_documents_checker_raises
          [where invoke = invoke and filter_documents = filter_documents]) simp_all
  then show "execute_tool p ''retrieve_documents'' args =
        ([(''error'', PStr (exc_msg e)), (''success'', PBool False)],
         [Invoke q, FilterDocuments q (py_slice_to retrieved_docs k)])"
    by (simp add: execute_tool_retrieve caught_Inl)
next
  assume "int_or_default (dict_get args ''top_k'' (PInt 5)) 5 = Inr k \<and>
    py_str (dict_get args ''document_name'' (PStr [])) = name \<and> name \<noteq> [] \<and>
    py_str (dict_get args ''query'' (PStr [])) = q \<and> q \<noteq> [] \<and>
    hybrid_retriever p = Some invoke \<and> invoke q = Inl e"
  then have "search_specific_document p args = (Inl e, [Invoke q])"
    by (intro search_specific_document_retriever_raises
          [where k = k and name = name and invoke = invoke]) simp_all
  then show "execute_tool p ''search_specific_document'' args =
        ([(''error'', PStr (exc_msg e)), (''success'', PBool False)], [Invoke q])"
    by (simp add: execute_tool_search caught_Inl)
next
  assume "int_or_default (dict_get args ''top_k'' (PInt 5)) 5 = Inr k \<and>
    py_str (dict_get args ''document_name'' (PStr [])) = name \<and> name \<noteq> [] \<and>
    py_str (dict_get args ''query'' (PStr [])) = q \<and> q \<noteq> [] \<and>
    hybrid_retriever p = Some invoke \<and> invoke q = Inr retrieved_docs \<and>
    doc_specific name retrieved_docs = Inr scoped \<and> scoped \<noteq> [] \<and>
    relevance_checker p = Some filter_documents \<and>
    filter_documents q (py_slice_to scoped (k * 2)) = Inl e"
  then have "search_specific_document p args =
     (Inl e, [Invoke q, FilterDocuments q (py_slice_to scoped (k * 2))])"
    by (intro search_specific_document_checker_raises
          [where name = name and invoke = invoke and retrieved_docs = retrieved_docs
             and filter_documents = filter_documents]) simp_all
  then show "execute_tool p ''search_specific_document'' args =
        ([(''error'', PStr (exc_msg e)), (''success'', PBool False)],
         [Invoke q, FilterDocuments q (py_slice_to scoped (k * 2))])"
    by (simp add: execute_tool_search caught_Inl)
qed

lemma retrieve_documents_failing:
  "retrieve_documents failing_pipeline [(''query'', PStr ''wetlands'')] =
     (Inl (Exc OtherException ''index unavailable''), [Invoke ''wetlands''])"
  by (simp add: retrieve_documents_def failing_pipeline_def int_or_default_def dict_get_def
      py_str_def)

theorem execute_tool_catches_witness:
  "retrieve_documents failing_pipeline [(''query'', PStr ''wetlands'')] =
     (Inl (Exc OtherException ''index unavailable''), [Invoke ''wetlands'']) \<and>
   execute_tool failing_pipeline ''retrieve_documents'' [(''query'', PStr ''wetlands'')] =
     ([(''error'', PStr ''index unavailable''), (''success'', PBool False)],
      [Invoke ''wetlands'']) \<and>
   execute_tool unreliable_pipeline ''retrieve_documents''
       [(''query'', PStr ''wetlands''), (''top_k'', PInt 2)] =
     ([(''error'', PStr ''scoring failed''), (''success'', PBool False)],
      [Invoke ''wetlands'',
       FilterDocuments ''wetlands'' [chunk ''marsh'' ''A.pdf'' 1, chunk ''fen'' ''A.pdf'' 2]])"
proof (intro conjI)
  show a: "retrieve_documents failing_pipeline [(''query'', PStr ''wetlands'')] =
     (Inl (Exc OtherException ''index unavailable''), [Invoke ''wetlands''])"
    by (rule retrieve_documents_failing)
  from execute_tool_catches [of failing_pipeline "[(''query'', PStr ''wetlands'')]"
      "Exc OtherException ''index unavailable''" "[Invoke ''wetlands'']",
      THEN conjunct1, THEN mp, OF a]
  show "execute_tool failing_pipeline ''retrieve_documents'' [(''query'', PStr ''wetlands'')] =
     ([(''error'', PStr ''index unavailable''), (''success'', PBool False)],
      [Invoke ''wetlands''])"
    by simp
  let ?args = "[(''query'', PStr ''wetlands''), (''top_k'', PInt 2)]"
  have h: "int_or_default (dict_get ?args ''top_k'' (PInt 8)) 8 = Inr 2 \<and>
    py_str (dict_get ?args ''query'' (dict_get ?args ''question'' (PStr []))) = ''wetlands'' \<and>
    ''wetlands'' \<noteq> [] \<and>
    hybrid_retriever unreliable_pipeline = Some (\<lambda>query. Inr ranking) \<and>
    (\<lambda>query. Inr ranking) ''wetlands'' = (Inr ranking :: exc + document list) \<and>
    ranking \<noteq> [] \<and>
    relevance_checker unreliable_pipeline =
      Some (\<lambda>query docs. Inl (Exc OtherException ''scoring failed'')) \<and>
    (\<lambda>query docs. Inl (Exc OtherException ''scoring failed'')) ''wetlands''
        (py_slice_to ranking 2) =
      (Inl (Exc OtherException ''scoring failed'') :: exc + (document \<times> pyval) list)"
    by (simp add: int_or_default_def dict_get_def py_str_def unreliable_pipeline_def ranking_def)
  from execute_tool_catches
      [where p = unreliable_pipeline and args = ?args and k = 2 and q = "''wetlands''"
         and e = "Exc OtherException ''scoring failed''"
         and invoke = "\<lambda>query. Inr ranking" and retrieved_docs = ranking
         and filter_documents = "\<lambda>query docs. Inl (Exc OtherException ''scoring failed'')",
       THEN conjunct2, THEN conjunct2, THEN conjunct2, THEN conjunct2, THEN conjunct1,
       THEN mp, OF h]
  show "execute_tool unreliable_pipeline ''retrieve_documents'' ?args =
     ([(''error'', PStr ''scoring failed''), (''success'', PBool False)],
      [Invoke ''wetlands'',
       FilterDocuments ''wetlands'' [chunk ''marsh'' ''A.pdf'' 1, chunk ''fen'' ''A.pdf'' 2]])"
    by (simp add: py_slice_to_def ranking_def)
qed

section \<open>Empty results\<close>

text \<open>
  Claim C5. With a non-empty query (and document name), a \<open>top_k\<close> that is not an
  infinity and a pipeline that has the retriever, an empty result is a success and not
  an error: \<open>retrieve_documents\<close> returns
  \<open>{success: True, message: "No relevant documents found", documents: [], count: 0}\<close>
  when the retriever returns nothing, and \<open>search_specific_document\<close> returns a
  \<open>success: True\<close>, \<open>count: 0\<close> envelope whose \<open>searched_document\<close> is the
  document name when no retrieved document is of that source.
\<close>

theorem empty_result_is_success:
  "(\<not> infinite_top_k args \<and>
    py_str (dict_get args ''query'' (dict_get args ''question'' (PStr []))) = q \<and> q \<noteq> [] \<and>
    hybrid_retriever p = Some invoke \<and> invoke q = Inr [] \<longrightarrow>
    execute_tool p ''retrieve_documents'' args =
      ([(''success'', PBool True), (''message'', PStr ''No relevant documents found''),
        (''documents'', PList []), (''count'', PInt 0)], [Invoke q])) \<and>
   (\<not> infinite_top_k args \<and>
    py_str (dict_get args ''document_name'' (PStr [])) = name \<and> name \<noteq> [] \<and>
    py_str (dict_get args ''query'' (PStr [])) = q \<and> q \<noteq> [] \<and>
    hybrid_retriever p = Some invoke \<and> invoke q = Inr retrieved_docs \<and>
    doc_specific name retrieved_docs = Inr [] \<longrightarrow>
    execute_tool p ''search_specific_document'' args =
      ([(''success'', PBool True),
        (''message'',
         PStr (''No content found in '' @ [CHR 0x27] @ name @ [CHR 0x27] @ '' for this query'')),
        (''documents'', PList []), (''count'', PInt 0),
        (''searched_document'', PStr name)], [Invoke q]))"
proof (intro conjI impI)
  assume h: "\<not> infinite_top_k args \<and>
    py_str (dict_get args ''query'' (dict_get args ''question'' (PStr []))) = q \<and> q \<noteq> [] \<and>
    hybrid_retriever p = Some invoke \<and> invoke q = Inr []"
  then obtain k where "int_or_default (dict_get args ''top_k'' (PInt 8)) 8 = Inr k"
    using int_or_default_top_k by blast
  with h show "execute_tool p ''retrieve_documents'' args =
      ([(''success'', PBool True), (''message'', PStr ''No relevant documents found''),
        (''documents'', PList []), (''count'', PInt 0)], [Invoke q])"
    by (simp add: execute_tool_retrieve retrieve_documents_empty [where k = k and q = q]
        caught_Inr)
next
  assume h: "\<not> infinite_top_k args \<and>
    py_str (dict_get args ''document_name'' (PStr [])) = name \<and> name \<noteq> [] \<and>
    py_str (dict_get args ''query'' (PStr [])) = q \<and> q \<noteq> [] \<and>
    hybrid_retriever p = Some invoke \<and> invoke q = Inr retrieved_docs \<and>
    doc_specific name retrieved_docs = Inr []"
  then obtain k where "int_or_default (dict_get args ''top_k'' (PInt 5)) 5 = Inr k"
    using int_or_default_top_k by blast
  with h show "execute_tool p ''search_specific_document'' args =
      ([(''success'', PBool True),
        (''message'',
         PStr (''No content found in '' @ [CHR 0x27] @ name @ [CHR 0x27] @ '' for this query'')),
        (''documents'', PList []), (''count'', PInt 0),
        (''searched_document'', PStr name)], [Invoke q])"
    by (simp add: execute_tool_search
        search_specific_document_empty [where k = k and q = q and name = name] caught_Inr)
qed

lemma doc_specific_ranking_c: "doc_specific ''C.pdf'' ranking = Inr []"
  by (simp add: ranking_def chunk_def dict_get_def py_lower_def lower_def lower_char_def
      sublist_code(3))

theorem empty_result_is_success_witness:
  "execute_tool empty_pipeline ''retrieve_documents'' [(''query'', PStr ''wetlands'')] =
     ([(''success'', PBool True), (''message'', PStr ''No relevant documents found''),
       (''documents'', PList []), (''count'', PInt 0)], [Invoke ''wetlands'']) \<and>
   execute_tool example_pipeline ''search_specific_document''
       [(''document_name'', PStr ''C.pdf''), (''query'', PStr ''wetlands'')] =
     ([(''success'', PBool True),
       (''message'', PStr (''No content found in '' @ [CHR 0x27] @ ''C.pdf'' @ [CHR 0x27]
                           @ '' for this query'')),
       (''documents'', PList []), (''count'', PInt 0),
       (''searched_document'', PStr ''C.pdf'')], [Invoke ''wetlands''])"
proof
  have "\<not> infinite_top_k [(''query'', PStr ''wetlands'')]"
    by (simp add: infinite_top_k_def)
  then show "execute_tool empty_pipeline ''retrieve_documents'' [(''query'', PStr ''wetlands'')] =
     ([(''success'', PBool True), (''message'', PStr ''No relevant documents found''),
       (''documents'', PList []), (''count'', PInt 0)], [Invoke ''wetlands''])"
    using empty_result_is_success [of "[(''query'', PStr ''wetlands'')]" "''wetlands''"
        empty_pipeline "\<lambda>query. Inr []"]
    by (simp add: empty_pipeline_def dict_get_def py_str_def)
next
  have "\<not> infinite_top_k [(''document_name'', PStr ''C.pdf''), (''query'', PStr ''wetlands'')]"
    by (simp add: infinite_top_k_def)
  then show "execute_tool example_pipeline ''search_specific_document''
       [(''document_name'', PStr ''C.pdf''), (''query'', PStr ''wetlands'')] =
     ([(''success'', PBool True),
       (''message'', PStr (''No content found in '' @ [CHR 0x27] @ ''C.pdf'' @ [CHR 0x27]
                           @ '' for this query'')),
       (''documents'', PList []), (''count'', PInt 0),
       (''searched_document'', PStr ''C.pdf'')], [Invoke ''wetlands''])"
    using empty_result_is_success
        [of "[(''document_name'', PStr ''C.pdf''), (''query'', PStr ''wetlands'')]" "''wetlands''"
          example_pipeline "\<lambda>query. Inr ranking" "''C.pdf''" ranking]
      doc_specific_ranking_c
    by (simp add: example_pipeline_def dict_get_def py_str_def)
qed

section \<open>The formatter on failures and on empty results\<close>

text \<open>
  Claim C9. For every tool name and every envelope whose \<open>success\<close> is false (or
  missing, or any other value that Python takes for false), the formatter returns the
  line \<open>[Tool Error - <tool_name>]: <error>\<close>, with \<open>Unknown error\<close> for a missing
  \<open>error\<close>, so that the text starts with \<open>[Tool Error - \<close>. For an envelope whose
  \<open>success\<close> is true and whose \<open>documents\<close> are empty (or missing), under the name
  of either retrieval tool, the text holds \<open>No relevant documents found.\<close>
\<close>

theorem format_tool_result_failure_and_empty:
  "(\<not> py_bool (dict_get result ''success'' (PBool False)) \<longrightarrow>
      format_tool_result_for_prompt json_dumps tool_name result =
        Inr (''[Tool Error - '' @ tool_name @ '']: ''
             @ py_str (dict_get result ''error'' (PStr ''Unknown error''))) \<and>
      prefix ''[Tool Error - ''
        (''[Tool Error - '' @ tool_name @ '']: ''
         @ py_str (dict_get result ''error'' (PStr ''Unknown error'')))) \<and>
   (py_bool (dict_get result ''success'' (PBool False)) \<and>
    (tool_name = ''retrieve_documents'' \<or> tool_name = ''search_specific_document'') \<and>
    dict_get result ''documents'' (PList []) = PList [] \<longrightarrow>
      format_tool_result_for_prompt json_dumps tool_name result =
        Inr (''['' @ tool_name @ '']: No relevant documents found.'') \<and>
      sublist ''No relevant documents found.''
        (''['' @ tool_name @ '']: No relevant documents found.''))"
proof (intro conjI impI)
  show "prefix ''[Tool Error - ''
        (''[Tool Error - '' @ tool_name @ '']: ''
         @ py_str (dict_get result ''error'' (PStr ''Unknown error'')))"
    by simp
next
  have "''['' @ tool_name @ '']: No relevant documents found.'' =
        (''['' @ tool_name @ '']: '') @ ''No relevant documents found.'' @ []"
    by simp
  then show "sublist ''No relevant documents found.''
        (''['' @ tool_name @ '']: No relevant documents found.'')"
    unfolding sublist_def by blast
qed (simp_all add: format_tool_result_for_prompt_def)

theorem format_tool_result_failure_and_empty_witness:
  "format_tool_result_for_prompt (\<lambda>result. Inr []) ''retrieve_documents''
      [(''error'', PStr ''Query is required''), (''success'', PBool False)] =
     Inr ''[Tool Error - retrieve_documents]: Query is required'' \<and>
   format_tool_result_for_prompt (\<lambda>result. Inr []) ''search_specific_document''
      [(''success'', PBool True), (''documents'', PList []), (''count'', PInt 0)] =
     Inr ''[search_specific_document]: No relevant documents found.''"
  using format_tool_result_failure_and_empty
      [of "[(''error'', PStr ''Query is required''), (''success'', PBool False)]"
        "\<lambda>result. Inr []" "''retrieve_documents''"]
    format_tool_result_failure_and_empty
      [of "[(''success'', PBool True), (''documents'', PList []), (''count'', PInt 0)]"
        "\<lambda>result. Inr []" "''search_specific_document''"]
  by (simp add: dict_get_def py_str_def)

section \<open>The catalogue and the dispatch\<close>

















section \<open>Grouping the collection by source\<close>

lemma set_first_seen [simp]: "set (first_seen xs) = set xs"
  by (simp add: first_seen_def)

lemma distinct_first_seen [simp]: "distinct (first_seen xs)"
  by (simp add: first_seen_def)

lemma first_seen_snoc: "first_seen (xs @ [x]) = set_add x (first_seen xs)"
  by (simp add: first_seen_def set_add_def)

lemma length_first_seen: "length (first_seen xs) = card (set xs)"
  using distinct_card [of "first_seen xs"] by simp

lemma key_eq_string: "key_eq k (PStr s) = (k = PStr s)"
  by (cases k) (auto simp: key_eq_def split: option.splits)

lemma group_of_snoc:
  "group_of (docs @ [doc]) source =
     (if source_of doc = source then group_of docs source @ [doc] else group_of docs source)"
  by (simp add: group_of_def)

lemma group_of_empty: "source \<notin> set (map source_of docs) \<Longrightarrow> group_of docs source = []"
  by (auto simp: group_of_def filter_empty_conv)

lemma grouped_entry_snoc:
  "grouped_entry (docs @ [doc]) source =
     (if source_of doc = source
      then (grouped_entry docs source)
             \<lparr>info_pages := set_add (page_of doc) (info_pages (grouped_entry docs source)),
              info_types := set_add (type_of doc) (info_types (grouped_entry docs source)),
              info_chunk_count := info_chunk_count (grouped_entry docs source) + 1\<rparr>
      else grouped_entry docs source)"
  by (simp add: grouped_entry_def group_of_snoc first_seen_snoc)

lemma grouped_entry_new:
  "source \<notin> set (map source_of docs) \<Longrightarrow>
   grouped_entry docs source =
     \<lparr>info_name = source, info_pages = [], info_types = [], info_chunk_count = 0\<rparr>"
  by (simp add: grouped_entry_def group_of_empty first_seen_def)

lemma add_doc_string:
  assumes "source_of doc = PStr s"
  shows "add_doc doc_info doc =
     Inr (map (\<lambda>(k, info).
                if k = PStr s
                then (k, info\<lparr>info_pages := set_add (page_of doc) (info_pages info),
                              info_types := set_add (type_of doc) (info_types info),
                              info_chunk_count := info_chunk_count info + 1\<rparr>)
                else (k, info))
            (if PStr s \<in> fst ` set doc_info then doc_info
             else doc_info @
                  [(PStr s, \<lparr>info_name = PStr s, info_pages = [], info_types = [],
                             info_chunk_count = 0\<rparr>)]))"
proof -
  have src: "dict_get (metadata doc) ''source'' (PStr ''Unknown'') = PStr s"
    using assms by (simp add: source_of_def)
  show ?thesis
    unfolding add_doc_def src Let_def key_eq_string page_of_def type_of_def
    by (auto simp: list_ex_iff)
qed

lemma add_doc_grouped:
  assumes "source_of doc = PStr s"
  shows "add_doc (grouped docs) doc = Inr (grouped (docs @ [doc]))"
proof -
  let ?keys = "first_seen (map source_of docs)"
  let ?new = "\<lparr>info_name = PStr s, info_pages = [], info_types = [], info_chunk_count = 0\<rparr>"
  have keys: "fst ` set (grouped docs) = set ?keys"
    by (auto simp: grouped_def image_iff)
  have before:
    "(if PStr s \<in> set ?keys then grouped docs else grouped docs @ [(PStr s, ?new)]) =
     map (\<lambda>source. (source, grouped_entry docs source)) (set_add (PStr s) ?keys)"
    using grouped_entry_new [of "PStr s" docs] by (auto simp: grouped_def set_add_def)
  show ?thesis
    unfolding add_doc_string [OF assms] keys before
    using assms by (simp add: grouped_def first_seen_snoc grouped_entry_snoc o_def)
qed

lemma group_docs_grouped:
  assumes "string_sources docs"
  shows "group_docs (grouped seen) docs = Inr (grouped (seen @ docs))"
  using assms
proof (induction docs arbitrary: seen)
  case Nil
  then show ?case by simp
next
  case (Cons doc docs)
  then obtain s where s: "source_of doc = PStr s"
    by (auto simp: string_sources_def split: pyval.splits)
  from Cons have "string_sources docs"
    by (simp add: string_sources_def)
  then have "group_docs (grouped (seen @ [doc])) docs = Inr (grouped ((seen @ [doc]) @ docs))"
    by (rule Cons.IH)
  then show ?case
    by (simp add: add_doc_grouped [OF s])
qed

lemma grouped_Nil: "grouped [] = []"
  by (simp add: grouped_def first_seen_def)

lemma group_docs_is_grouped:
  "string_sources docs \<Longrightarrow> group_docs [] docs = Inr (grouped docs)"
  using group_docs_grouped [of docs "[]"] by (simp add: grouped_Nil)


lemma sum_list_delta:
  "distinct ks \<Longrightarrow>
   sum_list (map (\<lambda>k. if x = k then 1 else 0) ks) = (if x \<in> set ks then 1 else (0::nat))"
  by (induction ks) auto

lemma sum_list_groups:
  assumes "distinct ks" and "set (map f xs) \<subseteq> set ks"
  shows "sum_list (map (\<lambda>k. length (filter (\<lambda>x. f x = k) xs)) ks) = length xs"
  using assms(2)
proof (induction xs)
  case Nil
  then show ?case by simp
next
  case (Cons x xs)
  have "sum_list (map (\<lambda>k. length (filter (\<lambda>x. f x = k) (x # xs))) ks) =
        sum_list (map (\<lambda>k. (if f x = k then 1 else 0) + length (filter (\<lambda>x. f x = k) xs)) ks)"
    by (rule arg_cong [where f = sum_list]) (simp cong: map_cong)
  also have "\<dots> = sum_list (map (\<lambda>k. if f x = k then 1 else 0) ks) +
                  sum_list (map (\<lambda>k. length (filter (\<lambda>x. f x = k) xs)) ks)"
    by (simp add: sum_list_addf)
  also have "\<dots> = 1 + length xs"
    using Cons assms(1) by (simp add: sum_list_delta)
  finally show ?case by simp
qed

lemma grouped_chunks:
  "sum_list (map (\<lambda>source. int (length (group_of docs source)))
               (first_seen (map source_of docs))) = int (length docs)"
proof -
  have "sum_list (map (\<lambda>k. length (filter (\<lambda>doc. source_of doc = k) docs))
                    (first_seen (map source_of docs))) = length docs"
    by (rule sum_list_groups) simp_all
  then have "int (sum_list (map (\<lambda>k. length (group_of docs k))
                    (first_seen (map source_of docs)))) = int (length docs)"
    by (simp add: group_of_def)
  then show ?thesis
    by (simp add: sum_list_of_nat [symmetric] o_def)
qed

lemma get_document_list_missing:
  assumes "documents p = None \<or> documents p = Some []"
  shows "get_document_list p args =
     (Inr [(''success'', PBool False),
           (''error'', PStr ''No documents loaded in the knowledge base'')], [])"
  using assms by (auto simp: get_document_list_def)

lemma get_document_list_grouped:
  assumes "documents p = Some docs" and "docs \<noteq> []" and "string_sources docs"
  shows "get_document_list p args =
     (Inr [(''success'', PBool True),
           (''message'',
            PStr (''Found '' @ str_of_int (int (card (source_of ` set docs)))
                  @ '' documents in knowledge base'')),
           (''documents'', PList (map (\<lambda>(source, info). catalog_entry info) (grouped docs))),
           (''total_documents'', PInt (int (card (source_of ` set docs))))], [])"
proof -
  have "length (grouped docs) = card (source_of ` set docs)"
    by (simp add: grouped_def length_first_seen)
  then show ?thesis
    using assms by (simp add: get_document_list_def group_docs_is_grouped)
qed

lemma catalog_entries:
  "map (\<lambda>(source, info). catalog_entry info) (grouped docs) =
   map (\<lambda>source. catalog_entry (grouped_entry docs source)) (first_seen (map source_of docs))"
  by (simp add: grouped_def o_def)

lemma entry_field_catalog_entry:
  "entry_field (catalog_entry info) ''name'' = Some (info_name info)"
  "entry_field (catalog_entry info) ''total_chunks'' = Some (PInt (info_chunk_count info))"
  "entry_field (catalog_entry info) ''page_count'' = Some (PInt (int (length (info_pages info))))"
  by (simp_all add: entry_field_def catalog_entry_def)

lemma grouped_entry_fields:
  "info_name (grouped_entry docs source) = source"
  "info_chunk_count (grouped_entry docs source) = int (length (group_of docs source))"
  "length (info_pages (grouped_entry docs source)) = card (page_of ` set (group_of docs source))"
  by (simp_all add: grouped_entry_def length_first_seen)

section \<open>The catalogue of the collection\<close>

text \<open>
  Claim C6. When the pipeline has no collection of documents, or an empty one,
  \<open>get_document_list\<close> returns
  \<open>{success: False, error: "No documents loaded in the knowledge base"}\<close>. On a
  non-empty collection of \<open>N\<close> documents whose sources (\<open>Unknown\<close> where the
  metadata has none) are strings, \<open>K\<close> of them distinct, it returns a
  \<open>success: True\<close> envelope with \<open>total_documents = K\<close> and one entry for each
  source, in first-seen order; the entry of a source has the number of the documents
  of that source as \<open>total_chunks\<close>, so that these sum to \<open>N\<close>, and the number of
  distinct stringified pages of those documents as \<open>page_count\<close>.
\<close>

theorem get_document_list_catalogue:
  "(documents p = None \<or> documents p = Some [] \<longrightarrow>
      execute_tool p ''get_document_list'' args =
        ([(''success'', PBool False),
          (''error'', PStr ''No documents loaded in the knowledge base'')], [])) \<and>
   (documents p = Some docs \<and> docs \<noteq> [] \<and> string_sources docs \<longrightarrow>
      (\<exists>entries.
         execute_tool p ''get_document_list'' args =
           ([(''success'', PBool True),
             (''message'',
              PStr (''Found '' @ str_of_int (int (card (source_of ` set docs)))
                    @ '' documents in knowledge base'')),
             (''documents'', PList entries),
             (''total_documents'', PInt (int (card (source_of ` set docs))))], []) \<and>
         map (\<lambda>entry. entry_field entry ''name'') entries =
           map Some (first_seen (map source_of docs)) \<and>
         sum_list (map total_chunks entries) = int (length docs) \<and>
         (\<forall>entry \<in> set entries.
            \<exists>source. entry_field entry ''name'' = Some source \<and>
              entry_field entry ''total_chunks'' =
                Some (PInt (int (length (group_of docs source)))) \<and>
              entry_field entry ''page_count'' =
                Some (PInt (int (card (page_of ` set (group_of docs source))))))))"
proof (intro conjI impI)
  assume "documents p = None \<or> documents p = Some []"
  then show "execute_tool p ''get_document_list'' args =
        ([(''success'', PBool False),
          (''error'', PStr ''No documents loaded in the knowledge base'')], [])"
    by (simp add: execute_tool_list get_document_list_missing caught_Inr)
next
  assume h: "documents p = Some docs \<and> docs \<noteq> [] \<and> string_sources docs"
  let ?entries = "map (\<lambda>source. catalog_entry (grouped_entry docs source))
                      (first_seen (map source_of docs))"
  have "execute_tool p ''get_document_list'' args =
           ([(''success'', PBool True),
             (''message'',
              PStr (''Found '' @ str_of_int (int (card (source_of ` set docs)))
                    @ '' documents in knowledge base'')),
             (''documents'', PList ?entries),
             (''total_documents'', PInt (int (card (source_of ` set docs))))], [])"
    using h
    by (simp add: execute_tool_list get_document_list_grouped [where docs = docs] caught_Inr
        catalog_entries)
  moreover have "map (\<lambda>entry. entry_field entry ''name'') ?entries =
           map Some (first_seen (map source_of docs))"
    by (simp add: entry_field_catalog_entry grouped_entry_fields o_def)
  moreover have "sum_list (map total_chunks ?entries) = int (length docs)"
    using grouped_chunks [of docs]
    by (simp add: total_chunks_def entry_field_catalog_entry grouped_entry_fields o_def)
  moreover have "\<forall>entry \<in> set ?entries.
            \<exists>source. entry_field entry ''name'' = Some source \<and>
              entry_field entry ''total_chunks'' =
                Some (PInt (int (length (group_of docs source)))) \<and>
              entry_field entry ''page_count'' =
                Some (PInt (int (card (page_of ` set (group_of docs source)))))"
    by (auto simp: entry_field_catalog_entry grouped_entry_fields)
  ultimately show "\<exists>entries.
         execute_tool p ''get_document_list'' args =
           ([(''success'', PBool True),
             (''message'',
              PStr (''Found '' @ str_of_int (int (card (source_of ` set docs)))
                    @ '' documents in knowledge base'')),
             (''documents'', PList entries),
             (''total_documents'', PInt (int (card (source_of ` set docs))))], []) \<and>
         map (\<lambda>entry. entry_field entry ''name'') entries =
           map Some (first_seen (map source_of docs)) \<and>
         sum_list (map total_chunks entries) = int (length docs) \<and>
         (\<forall>entry \<in> set entries.
            \<exists>source. entry_field entry ''name'' = Some source \<and>
              entry_field entry ''total_chunks'' =
                Some (PInt (int (length (group_of docs source)))) \<and>
              entry_field entry ''page_count'' =
                Some (PInt (int (card (page_of ` set (group_of docs source))))))"
    by blast
qed


lemma str_of_int_digits:
  "str_of_int 0 = ''0''" "str_of_int 1 = ''1''" "str_of_int 2 = ''2''" "str_of_int 3 = ''3''"
  "str_of_int 4 = ''4''" "str_of_int 5 = ''5''"
  by code_simp+

lemma get_document_list_corpus:
  "execute_tool example_pipeline ''get_document_list'' [] =
     ([(''success'', PBool True),
       (''message'', PStr ''Found 2 documents in knowledge base''),
       (''documents'',
        PList [PDict [(''name'', PStr ''A.pdf''), (''total_chunks'', PInt 2),
                      (''page_count'', PInt 2), (''content_types'', PList [PStr ''text''])],
               PDict [(''name'', PStr ''B.pdf''), (''total_chunks'', PInt 1),
                      (''page_count'', PInt 1), (''content_types'', PList [PStr ''text''])]]),
       (''total_documents'', PInt 2)], [])"
  by (simp add: execute_tool_list caught_def get_document_list_def example_pipeline_def
      corpus_def chunk_def add_doc_def dict_get_def key_eq_def set_add_def catalog_entry_def
      py_str_def str_of_int_digits Let_def)

theorem get_document_list_catalogue_witness:
  "execute_tool failing_pipeline ''get_document_list'' [] =
     ([(''success'', PBool False),
       (''error'', PStr ''No documents loaded in the knowledge base'')], []) \<and>
   documents example_pipeline = Some corpus \<and> corpus \<noteq> [] \<and> string_sources corpus \<and>
   (\<exists>entries.
      execute_tool example_pipeline ''get_document_list'' [] =
        ([(''success'', PBool True),
          (''message'', PStr ''Found 2 documents in knowledge base''),
          (''documents'', PList entries),
          (''total_documents'', PInt 2)], []) \<and>
      map (\<lambda>entry. entry_field entry ''name'') entries =
        [Some (PStr ''A.pdf''), Some (PStr ''B.pdf'')] \<and>
      map total_chunks entries = [2, 1] \<and>
      map (\<lambda>entry. entry_field entry ''page_count'') entries = [Some (PInt 2), Some (PInt 1)])"
proof (intro conjI)
  have "documents failing_pipeline = None \<or> documents failing_pipeline = Some []"
    by (simp add: failing_pipeline_def)
  then show "execute_tool failing_pipeline ''get_document_list'' [] =
     ([(''success'', PBool False),
       (''error'', PStr ''No documents loaded in the knowledge base'')], [])"
    by (rule get_document_list_catalogue [of failing_pipeline "[]" "[]", THEN conjunct1, THEN mp])
next
  show "documents example_pipeline = Some corpus"
    by (simp add: example_pipeline_def)
next
  show "corpus \<noteq> []"
    by (simp add: corpus_def)
next
  show "string_sources corpus"
    by (simp add: corpus_def string_sources_def source_of_def chunk_def dict_get_def)
next
  have b: "documents example_pipeline = Some corpus \<and> corpus \<noteq> [] \<and> string_sources corpus"
    by (simp add: example_pipeline_def corpus_def string_sources_def source_of_def chunk_def
        dict_get_def)
  note get_document_list_catalogue [of example_pipeline "[]" corpus, THEN conjunct2, THEN mp, OF b]
  then show "\<exists>entries.
      execute_tool example_pipeline ''get_document_list'' [] =
        ([(''success'', PBool True),
          (''message'', PStr ''Found 2 documents in knowledge base''),
          (''documents'', PList entries),
          (''total_documents'', PInt 2)], []) \<and>
      map (\<lambda>entry. entry_field entry ''name'') entries =
        [Some (PStr ''A.pdf''), Some (PStr ''B.pdf'')] \<and>
      map total_chunks entries = [2, 1] \<and>
      map (\<lambda>entry. entry_field entry ''page_count'') entries = [Some (PInt 2), Some (PInt 1)]"
  proof (elim exE conjE)
    fix entries
    assume "execute_tool example_pipeline ''get_document_list'' [] =
           ([(''success'', PBool True),
             (''message'',
              PStr (''Found '' @ str_of_int (int (card (source_of ` set corpus)))
                    @ '' documents in knowledge base'')),
             (''documents'', PList entries),
             (''total_documents'', PInt (int (card (source_of ` set corpus))))], [])"
    then have entries: "entries =
        [PDict [(''name'', PStr ''A.pdf''), (''total_chunks'', PInt 2),
                (''page_count'', PInt 2), (''content_types'', PList [PStr ''text''])],
         PDict [(''name'', PStr ''B.pdf''), (''total_chunks'', PInt 1),
                (''page_count'', PInt 1), (''content_types'', PList [PStr ''text''])]]"
      unfolding get_document_list_corpus by simp
    show ?thesis
      by (rule exI [of _ entries])
        (simp add: entries get_document_list_corpus entry_field_def total_chunks_def)
  qed
qed

section \<open>Texts that \<^verbatim>\<open>int\<close> does not read\<close>

lemma is_digit_not_space: "is_digit c \<Longrightarrow> \<not> is_space c"
  by (auto simp: is_digit_def is_space_def)

lemma strip_digits:
  assumes "list_all is_digit s"
  shows "strip s = s"
proof (cases s rule: rev_cases)
  case Nil
  then show ?thesis by (simp add: strip_def)
next
  case (snoc cs c)
  with assms have c: "\<not> is_space c"
    by (simp add: is_digit_not_space)
  have "dropWhile is_space s = s"
  proof (cases s)
    case Nil
    then show ?thesis by simp
  next
    case (Cons a as)
    with assms have "\<not> is_space a"
      by (simp add: is_digit_not_space)
    with Cons show ?thesis by simp
  qed
  then show ?thesis
    using snoc c by (simp add: strip_def)
qed

lemma is_digit_not_sign: "is_digit c \<Longrightarrow> c \<noteq> CHR ''-'' \<and> c \<noteq> CHR ''+''"
  by (auto simp: is_digit_def)

lemma int_digits_all: "list_all is_digit s \<Longrightarrow> \<exists>n. int_digits s acc = Some n"
  by (induction s arbitrary: acc) simp_all

lemma int_literal_too_long:
  assumes "list_all is_digit s" and "int_max_str_digits < length s"
  shows "int_literal s = TooLong (length s)"
proof -
  from assms(2) have ne: "s \<noteq> []"
    by auto
  with assms(1) have hd: "is_digit (hd s)"
    by (cases s) simp_all
  have run: "takeWhile (\<lambda>c. is_digit c \<or> c = CHR ''_'') s = s"
    using assms(1) by (simp add: list_all_iff)
  have all: "filter is_digit s = s"
    using assms(1) by (simp add: list_all_iff)
  obtain n where n: "int_digits s 0 = Some n"
    using int_digits_all [OF assms(1), of 0] by auto
  show ?thesis
    by (simp only: int_literal_def Let_def run all n ne hd assms(2) if_True if_False
        option.case simp_thms)
qed


lemma int_or_default_too_long:
  assumes "list_all is_digit s" and "int_max_str_digits < length s"
  shows "int_or_default (PStr s) d = Inr d"
proof -
  from assms(2) obtain c cs where s: "s = c # cs"
    by (cases s) simp_all
  with assms(1) have "is_digit c"
    by simp
  then have sign: "c \<noteq> CHR ''-''" "c \<noteq> CHR ''+''"
    using is_digit_not_sign by simp_all
  have "strip s = c # cs"
    using strip_digits [OF assms(1)] s by simp
  moreover have "int_literal (c # cs) = TooLong (length s)"
    using int_literal_too_long [OF assms] s by simp
  ultimately have "isl (int_of_str s)"
    using sign by (simp add: int_of_str_def Let_def)
  then show ?thesis
    by (cases "int_of_str s") (simp_all add: int_or_default_def)
qed

text \<open>
  A \<^verbatim>\<open>top_k\<close> that \<^verbatim>\<open>int\<close> does not read leaves the default: a digit after a
  separator that \<^verbatim>\<open>int\<close> does not drop, and digits beyond the limit on their number
  (lemma \<open>int_or_default_too_long\<close>).
\<close>

lemma int_or_default_separator: "int_or_default (PStr [CHR 0x1C, CHR ''2'']) d = Inr d"
proof -
  have "isl (int_of_str [CHR 0x1C, CHR ''2''])"
    by (simp add: int_of_str_def strip_def is_space_def int_literal_def is_digit_def Let_def)
  then show ?thesis
    by (cases "int_of_str [CHR 0x1C, CHR ''2'']") (simp_all add: int_or_default_def)
qed

section \<open>Truncation and filtering in \<open>retrieve_documents\<close>\<close>

lemma py_slice_to_first_n: "0 \<le> k \<Longrightarrow> py_slice_to xs k = first_n k xs"
  by (simp add: py_slice_to_def first_n_def)

lemma result_of_defaults:
  "result_of doc =
     PDict [(''content'', PStr (page_content doc)),
            (''source'', case map_of (metadata doc) ''source'' of
                           None \<Rightarrow> PStr ''Unknown'' | Some v \<Rightarrow> v),
            (''page'', case map_of (metadata doc) ''page'' of
                         None \<Rightarrow> PStr ''?'' | Some v \<Rightarrow> v),
            (''type'', case map_of (metadata doc) ''type'' of
                         None \<Rightarrow> PStr ''text'' | Some v \<Rightarrow> v)]"
  by (simp add: result_of_def dict_get_def)

text \<open>
  Claim C4, as stated, reads "the first \<open>top_k\<close> elements" for every \<open>top_k\<close>. With
  \<open>top_k = -1\<close> there are no such elements, and the claimed envelope has no
  documents; the slice \<^verbatim>\<open>retrieved_docs[:-1]\<close> of the code has all retrieved documents
  but the last, here four of five.
\<close>

theorem retrieve_documents_negative_top_k:
  "int_or_default (dict_get [(''query'', PStr ''wetlands''), (''top_k'', PInt (- 1))]
                     ''top_k'' (PInt 8)) 8 = Inr (- 1) \<and>
   keep_all ''wetlands'' (first_n (- 1) ranking) = Inr [] \<and>
   field (fst (execute_tool example_pipeline ''retrieve_documents''
                 [(''query'', PStr ''wetlands''), (''top_k'', PInt (- 1))])) ''documents'' =
     Some (PList (map result_of
                    [chunk ''marsh'' ''A.pdf'' 1, chunk ''fen'' ''A.pdf'' 2,
                     chunk ''bog'' ''B.pdf'' 1, chunk ''mire'' ''A.pdf'' 3])) \<and>
   field (fst (execute_tool example_pipeline ''retrieve_documents''
                 [(''query'', PStr ''wetlands''), (''top_k'', PInt (- 1))])) ''count'' =
     Some (PInt 4) \<and>
   field (fst (execute_tool example_pipeline ''retrieve_documents''
                 [(''query'', PStr ''wetlands''), (''top_k'', PInt (- 1))])) ''documents'' \<noteq>
     Some (PList (map result_of (map fst ([] :: (document \<times> pyval) list))))"
  by (simp add: execute_tool_retrieve caught_def retrieve_documents_def int_or_default_def
      dict_get_def py_str_def example_pipeline_def ranking_def keep_all_def first_n_def
      py_slice_to_def str_of_int_digits field_def Let_def)

text \<open>
  Claim C4, amended. For every call to \<open>retrieve_documents\<close> whose \<open>top_k\<close> is
  read as an integer \<open>k \<ge> 0\<close>, with a non-empty coerced query, a pipeline that has
  the retriever and the relevance checker, and a non-empty retrieval result, the
  envelope is \<open>{success: True, message: "Retrieved N relevant documents",
  documents: D, count: N}\<close>, where \<open>D\<close> is, in order, the projection to
  \<open>{content, source, page, type}\<close> (with \<open>Unknown\<close>, \<open>?\<close> and \<open>text\<close> for
  missing metadata) of the documents of
  \<open>filter_documents(query, first k elements of invoke(query))\<close>, scores dropped:
  the truncation comes before the filter.
\<close>

theorem retrieve_documents_truncates_then_filters:
  assumes "int_or_default (dict_get args ''top_k'' (PInt 8)) 8 = Inr k" and "0 \<le> k"
    and "py_str (dict_get args ''query'' (dict_get args ''question'' (PStr []))) = q"
    and "q \<noteq> []"
    and "hybrid_retriever p = Some invoke" and "invoke q = Inr retrieved_docs"
    and "retrieved_docs \<noteq> []"
    and "relevance_checker p = Some filter_documents"
    and "filter_documents q (first_n k retrieved_docs) = Inr filtered"
  shows "execute_tool p ''retrieve_documents'' args =
     ([(''success'', PBool True),
       (''message'',
        PStr (''Retrieved '' @ str_of_int (int (length filtered)) @ '' relevant documents'')),
       (''documents'',
        PList (map (\<lambda>doc.
                     PDict [(''content'', PStr (page_content doc)),
                            (''source'', case map_of (metadata doc) ''source'' of
                                           None \<Rightarrow> PStr ''Unknown'' | Some v \<Rightarrow> v),
                            (''page'', case map_of (metadata doc) ''page'' of
                                         None \<Rightarrow> PStr ''?'' | Some v \<Rightarrow> v),
                            (''type'', case map_of (metadata doc) ''type'' of
                                         None \<Rightarrow> PStr ''text'' | Some v \<Rightarrow> v)])
                   (map fst filtered))),
       (''count'', PInt (int (length filtered)))],
      [Invoke q, FilterDocuments q (first_n k retrieved_docs)])"
proof -
  have "filter_documents q (py_slice_to retrieved_docs k) = Inr filtered"
    using assms(2,9) by (simp add: py_slice_to_first_n)
  from retrieve_documents_filtered [OF assms(1,3,4,5,6,7,8) this]
  show ?thesis
    by (simp add: execute_tool_retrieve caught_Inr py_slice_to_first_n [OF assms(2)]
        result_of_defaults [abs_def])
qed

theorem retrieve_documents_truncates_then_filters_witness:
  "execute_tool example_pipeline ''retrieve_documents''
       [(''question'', PStr ''wetlands''), (''top_k'', PFloat (Finite 2 0 ''2.0''))] =
     ([(''success'', PBool True),
       (''message'', PStr ''Retrieved 2 relevant documents''),
       (''documents'',
        PList [PDict [(''content'', PStr ''marsh''), (''source'', PStr ''A.pdf''),
                      (''page'', PInt 1), (''type'', PStr ''text'')],
               PDict [(''content'', PStr ''fen''), (''source'', PStr ''A.pdf''),
                      (''page'', PInt 2), (''type'', PStr ''text'')]]),
       (''count'', PInt 2)],
      [Invoke ''wetlands'',
       FilterDocuments ''wetlands'' [chunk ''marsh'' ''A.pdf'' 1, chunk ''fen'' ''A.pdf'' 2]]) \<and>
   execute_tool example_pipeline ''retrieve_documents''
       [(''query'', PStr ''wetlands''), (''top_k'', PStr [CHR 0x1C, CHR ''2''])] =
     ([(''success'', PBool True),
       (''message'', PStr ''Retrieved 5 relevant documents''),
       (''documents'', PList (map result_of ranking)),
       (''count'', PInt 5)],
      [Invoke ''wetlands'', FilterDocuments ''wetlands'' ranking])"
proof (intro conjI)
  let ?args = "[(''question'', PStr ''wetlands''), (''top_k'', PFloat (Finite 2 0 ''2.0''))]"
  have 1: "int_or_default (dict_get ?args ''top_k'' (PInt 8)) 8 = Inr 2"
    by (simp add: int_or_default_def dict_get_def float_trunc_def)
  have 2: "py_str (dict_get ?args ''query'' (dict_get ?args ''question'' (PStr []))) = ''wetlands''"
    by (simp add: dict_get_def py_str_def)
  have 3: "hybrid_retriever example_pipeline = Some (\<lambda>query. Inr ranking)"
    and 4: "relevance_checker example_pipeline = Some keep_all"
    by (simp_all add: example_pipeline_def)
  have 5: "keep_all ''wetlands'' (first_n 2 ranking) =
             Inr [(chunk ''marsh'' ''A.pdf'' 1, PFloat (Finite 1 0 ''1.0'')),
                  (chunk ''fen'' ''A.pdf'' 2, PFloat (Finite 1 0 ''1.0''))]"
    by (simp add: keep_all_def first_n_def ranking_def)
  have 6: "ranking \<noteq> []"
    by (simp add: ranking_def)
  have 7: "first_n 2 ranking = [chunk ''marsh'' ''A.pdf'' 1, chunk ''fen'' ''A.pdf'' 2]"
    by (simp add: first_n_def ranking_def)
  from retrieve_documents_truncates_then_filters
         [of ?args 2 "''wetlands''" example_pipeline "\<lambda>query. Inr ranking" ranking keep_all,
          OF 1 _ 2 _ 3 _ 6 4 5]
  show "execute_tool example_pipeline ''retrieve_documents'' ?args =
     ([(''success'', PBool True),
       (''message'', PStr ''Retrieved 2 relevant documents''),
       (''documents'',
        PList [PDict [(''content'', PStr ''marsh''), (''source'', PStr ''A.pdf''),
                      (''page'', PInt 1), (''type'', PStr ''text'')],
               PDict [(''content'', PStr ''fen''), (''source'', PStr ''A.pdf''),
                      (''page'', PInt 2), (''type'', PStr ''text'')]]),
       (''count'', PInt 2)],
      [Invoke ''wetlands'',
       FilterDocuments ''wetlands'' [chunk ''marsh'' ''A.pdf'' 1, chunk ''fen'' ''A.pdf'' 2]])"
    by (simp add: 7 str_of_int_digits chunk_def)
  let ?text = "[(''query'', PStr ''wetlands''), (''top_k'', PStr [CHR 0x1C, CHR ''2''])]"
  have t1: "int_or_default (dict_get ?text ''top_k'' (PInt 8)) 8 = Inr 8"
    by (simp add: dict_get_def int_or_default_separator)
  have t2: "py_str (dict_get ?text ''query'' (dict_get ?text ''question'' (PStr []))) = ''wetlands''"
    by (simp add: dict_get_def py_str_def)
  have t7: "first_n 8 ranking = ranking"
    by (simp add: first_n_def ranking_def)
  have t5: "keep_all ''wetlands'' (first_n 8 ranking) =
              Inr (map (\<lambda>doc. (doc, PFloat (Finite 1 0 ''1.0''))) ranking)"
    by (simp add: keep_all_def t7)
  have len: "length ranking = 5"
    by (simp add: ranking_def)
  have proj: "map (\<lambda>doc.
                     PDict [(''content'', PStr (page_content doc)),
                            (''source'', case map_of (metadata doc) ''source'' of
                                           None \<Rightarrow> PStr ''Unknown'' | Some v \<Rightarrow> v),
                            (''page'', case map_of (metadata doc) ''page'' of
                                         None \<Rightarrow> PStr ''?'' | Some v \<Rightarrow> v),
                            (''type'', case map_of (metadata doc) ''type'' of
                                         None \<Rightarrow> PStr ''text'' | Some v \<Rightarrow> v)]) ranking =
              map result_of ranking"
    by (simp add: result_of_defaults [abs_def])
  from retrieve_documents_truncates_then_filters
         [of ?text 8 "''wetlands''" example_pipeline "\<lambda>query. Inr ranking" ranking keep_all,
          OF t1 _ t2 _ 3 _ 6 4 t5]
  show "execute_tool example_pipeline ''retrieve_documents'' ?text =
     ([(''success'', PBool True),
       (''message'', PStr ''Retrieved 5 relevant documents''),
       (''documents'', PList (map result_of ranking)),
       (''count'', PInt 5)],
      [Invoke ''wetlands'', FilterDocuments ''wetlands'' ranking])"
    by (simp add: t7 len o_def proj str_of_int_digits)
qed

section \<open>Scoping, filtering and truncation in \<open>search_specific_document\<close>\<close>

lemma py_lower_Inr: "py_lower v = Inr t \<Longrightarrow> \<exists>s. v = PStr s \<and> t = lower s"
  by (cases v) (simp_all add: py_lower_def)

lemma doc_specific_filter:
  "doc_specific name docs = Inr scoped \<Longrightarrow>
   scoped = filter (\<lambda>doc. names_document name (dict_get (metadata doc) ''source'' (PStr []))) docs"
proof (induction docs arbitrary: scoped)
  case Nil
  then show ?case by simp
next
  case (Cons doc docs)
  from Cons.prems obtain t rest where
    t: "py_lower (dict_get (metadata doc) ''source'' (PStr [])) = Inr t"
    and rest: "doc_specific name docs = Inr rest"
    and scoped: "scoped = (if sublist (lower name) t then doc # rest else rest)"
    by (auto split: sum.splits)
  from py_lower_Inr [OF t] obtain s where
    s: "dict_get (metadata doc) ''source'' (PStr []) = PStr s" "t = lower s"
    by blast
  show ?case
    using Cons.IH [OF rest] scoped s by (simp add: names_document_def)
qed

lemma names_document_source:
  assumes "names_document name (dict_get (metadata doc) ''source'' (PStr []))" and "name \<noteq> []"
  shows "\<exists>s. entry_field (result_of doc) ''source'' = Some (PStr s) \<and>
             sublist (lower name) (lower s)"
proof (cases "map_of (metadata doc) ''source''")
  case None
  then show ?thesis
    using assms by (simp add: names_document_def dict_get_def lower_def)
next
  case (Some v)
  then show ?thesis
    using assms
    by (cases v) (simp_all add: names_document_def dict_get_def entry_field_def result_of_def)
qed

lemma set_first_n: "set (first_n n xs) \<subseteq> set xs"
  by (simp add: first_n_def set_take_subset)


lemma subseq_set: "subseq xs ys \<Longrightarrow> set xs \<subseteq> set ys"
proof
  fix x
  assume "subseq xs ys" and "x \<in> set xs"
  then obtain y where "y \<in> set ys" and "x = y"
    by (rule list_emb_set)
  then show "x \<in> set ys" by simp
qed

lemma lower_a_pdf: "lower ''a.pdf'' = ''a.pdf''" "lower ''A.pdf'' = ''a.pdf''"
  "lower ''B.pdf'' = ''b.pdf''"
  by code_simp+

lemma doc_specific_ranking_a:
  "doc_specific ''a.pdf'' ranking =
     Inr [chunk ''marsh'' ''A.pdf'' 1, chunk ''fen'' ''A.pdf'' 2,
          chunk ''mire'' ''A.pdf'' 3, chunk ''swamp'' ''A.pdf'' 4]"
  by (simp add: ranking_def chunk_def dict_get_def py_lower_def lower_a_pdf sublist_code(3))

lemma set_py_slice_to: "set (py_slice_to xs k) \<subseteq> set xs"
  by (simp add: py_slice_to_def set_take_subset)

lemma keep_all_subseq: "keep_all q docs = Inr found \<Longrightarrow> subseq (map fst found) docs"
  by (auto simp: keep_all_def o_def)

text \<open>
  Claim C3, as stated, reads "the first \<open>top_k\<close> elements" and "the first
  \<open>2 * top_k\<close>" for every \<open>top_k\<close>. With \<open>top_k = -1\<close> there are no such elements,
  and the claimed envelope has no documents; the slices \<^verbatim>\<open>doc_specific[:-2]\<close> and
  \<^verbatim>\<open>filtered[:-1]\<close> of the code leave one document of the four of \<^verbatim>\<open>A.pdf\<close>.
\<close>

theorem search_specific_document_negative_top_k:
  "doc_specific ''a.pdf'' ranking =
     Inr [chunk ''marsh'' ''A.pdf'' 1, chunk ''fen'' ''A.pdf'' 2,
          chunk ''mire'' ''A.pdf'' 3, chunk ''swamp'' ''A.pdf'' 4] \<and>
   keep_all ''wetlands''
     (first_n (2 * (- 1)) [chunk ''marsh'' ''A.pdf'' 1, chunk ''fen'' ''A.pdf'' 2,
                           chunk ''mire'' ''A.pdf'' 3, chunk ''swamp'' ''A.pdf'' 4]) = Inr [] \<and>
   first_n (- 1) ([] :: (document \<times> pyval) list) = [] \<and>
   field (fst (execute_tool example_pipeline ''search_specific_document''
                 [(''document_name'', PStr ''a.pdf''), (''query'', PStr ''wetlands''),
                  (''top_k'', PInt (- 1))])) ''documents'' =
     Some (PList [result_of (chunk ''marsh'' ''A.pdf'' 1)]) \<and>
   field (fst (execute_tool example_pipeline ''search_specific_document''
                 [(''document_name'', PStr ''a.pdf''), (''query'', PStr ''wetlands''),
                  (''top_k'', PInt (- 1))])) ''documents'' \<noteq>
     Some (PList (map result_of (map fst (first_n (- 1) ([] :: (document \<times> pyval) list)))))"
  by (simp add: doc_specific_ranking_a execute_tool_search caught_def
      search_specific_document_def int_or_default_def dict_get_def py_str_def
      example_pipeline_def keep_all_def first_n_def py_slice_to_def str_of_int_digits
      field_def Let_def)

text \<open>
  Claim C3, amended. For every call to \<open>search_specific_document\<close> with a non-empty
  document name and query, a \<open>top_k\<close> that is read as an integer \<open>k\<close>, a pipeline
  that has the retriever and the relevance checker, and a non-empty scoped set: the
  scoped set is the retrieved documents whose \<open>source\<close> contains the document name as
  a case-insensitive substring, in order; when \<open>k \<ge> 0\<close>, the returned documents are
  the projections, in order, of the first \<open>k\<close> elements of
  \<open>filter_documents(query, first 2 * k elements of the scoped set)\<close> (filter first,
  then cut to \<open>k\<close>); and for every \<open>k\<close>, when \<open>filter_documents\<close> returns a
  subsequence of its input, the \<open>source\<close> of every returned document contains the
  document name as a case-insensitive substring.
\<close>

theorem search_specific_document_filters_then_truncates:
  assumes "int_or_default (dict_get args ''top_k'' (PInt 5)) 5 = Inr k"
    and "py_str (dict_get args ''document_name'' (PStr [])) = name" and "name \<noteq> []"
    and "py_str (dict_get args ''query'' (PStr [])) = q" and "q \<noteq> []"
    and "hybrid_retriever p = Some invoke" and "invoke q = Inr retrieved_docs"
    and "doc_specific name retrieved_docs = Inr scoped" and "scoped \<noteq> []"
    and "relevance_checker p = Some filter_documents"
  shows "scoped =
           filter (\<lambda>doc. names_document name (dict_get (metadata doc) ''source'' (PStr [])))
             retrieved_docs \<and>
         (0 \<le> k \<and> filter_documents q (first_n (2 * k) scoped) = Inr filtered \<longrightarrow>
            execute_tool p ''search_specific_document'' args =
              ([(''success'', PBool True),
                (''message'',
                 PStr (''Retrieved '' @ str_of_int (int (length (first_n k filtered)))
                       @ '' chunks from '' @ [CHR 0x27] @ name @ [CHR 0x27])),
                (''documents'', PList (map result_of (map fst (first_n k filtered)))),
                (''count'', PInt (int (length (first_n k filtered)))),
                (''searched_document'', PStr name)],
               [Invoke q, FilterDocuments q (first_n (2 * k) scoped)])) \<and>
         ((\<forall>docs found. filter_documents q docs = Inr found \<longrightarrow> subseq (map fst found) docs) \<and>
          field (fst (execute_tool p ''search_specific_document'' args)) ''documents'' =
            Some (PList results) \<longrightarrow>
            (\<forall>r \<in> set results.
               \<exists>s. entry_field r ''source'' = Some (PStr s) \<and> sublist (lower name) (lower s)))"
proof (intro conjI impI ballI)
  show scoped: "scoped =
           filter (\<lambda>doc. names_document name (dict_get (metadata doc) ''source'' (PStr [])))
             retrieved_docs"
    using assms(8) by (rule doc_specific_filter)
  {
    assume a: "0 \<le> k \<and> filter_documents q (first_n (2 * k) scoped) = Inr filtered"
    then have k2: "py_slice_to scoped (k * 2) = first_n (2 * k) scoped"
      by (simp add: py_slice_to_def first_n_def mult.commute)
    have "filter_documents q (py_slice_to scoped (k * 2)) = Inr filtered"
      using a by (simp add: k2)
    from search_specific_document_filtered [OF assms this] a
    show "execute_tool p ''search_specific_document'' args =
              ([(''success'', PBool True),
                (''message'',
                 PStr (''Retrieved '' @ str_of_int (int (length (first_n k filtered)))
                       @ '' chunks from '' @ [CHR 0x27] @ name @ [CHR 0x27])),
                (''documents'', PList (map result_of (map fst (first_n k filtered)))),
                (''count'', PInt (int (length (first_n k filtered)))),
                (''searched_document'', PStr name)],
               [Invoke q, FilterDocuments q (first_n (2 * k) scoped)])"
      by (simp add: execute_tool_search caught_Inr k2 py_slice_to_first_n)
  }
  fix r
  assume b: "(\<forall>docs found. filter_documents q docs = Inr found \<longrightarrow> subseq (map fst found) docs) \<and>
          field (fst (execute_tool p ''search_specific_document'' args)) ''documents'' =
            Some (PList results)"
    and r: "r \<in> set results"
  show "\<exists>s. entry_field r ''source'' = Some (PStr s) \<and> sublist (lower name) (lower s)"
  proof (cases "filter_documents q (py_slice_to scoped (k * 2))")
    case (Inl e)
    from search_specific_document_checker_raises [OF assms this]
    have "field (fst (execute_tool p ''search_specific_document'' args)) ''documents'' = None"
      by (simp add: execute_tool_search caught_Inl field_def)
    with b show ?thesis by simp
  next
    case (Inr found)
    from search_specific_document_filtered [OF assms this]
    have "field (fst (execute_tool p ''search_specific_document'' args)) ''documents'' =
            Some (PList (map result_of (map fst (py_slice_to found k))))"
      by (simp add: execute_tool_search caught_Inr field_def)
    with b have results: "results = map result_of (map fst (py_slice_to found k))"
      by simp
    from b Inr have sub: "subseq (map fst found) (py_slice_to scoped (k * 2))"
      by simp
    from r results obtain doc where
      doc: "doc \<in> set (map fst (py_slice_to found k))" "r = result_of doc"
      by auto
    from doc(1) have "doc \<in> set (map fst found)"
      using set_py_slice_to [of found k] by auto
    then have "doc \<in> set (py_slice_to scoped (k * 2))"
      using subseq_set [OF sub] by (rule_tac subsetD)
    then have "doc \<in> set scoped"
      using set_py_slice_to [of scoped "k * 2"] by (rule_tac subsetD)
    then have "names_document name (dict_get (metadata doc) ''source'' (PStr []))"
      using scoped by simp
    from names_document_source [OF this assms(3)] doc(2)
    show ?thesis by simp
  qed
qed


theorem search_specific_document_filters_then_truncates_witness:
  "doc_specific ''a.pdf'' ranking =
     Inr [chunk ''marsh'' ''A.pdf'' 1, chunk ''fen'' ''A.pdf'' 2,
          chunk ''mire'' ''A.pdf'' 3, chunk ''swamp'' ''A.pdf'' 4] \<and>
   execute_tool example_pipeline ''search_specific_document''
       [(''document_name'', PStr ''a.pdf''), (''query'', PStr ''wetlands''),
        (''top_k'', PInt 1)] =
     ([(''success'', PBool True),
       (''message'', PStr (''Retrieved 1 chunks from '' @ [CHR 0x27] @ ''a.pdf'' @ [CHR 0x27])),
       (''documents'',
        PList [PDict [(''content'', PStr ''marsh''), (''source'', PStr ''A.pdf''),
                      (''page'', PInt 1), (''type'', PStr ''text'')]]),
       (''count'', PInt 1),
       (''searched_document'', PStr ''a.pdf'')],
      [Invoke ''wetlands'',
       FilterDocuments ''wetlands'' [chunk ''marsh'' ''A.pdf'' 1, chunk ''fen'' ''A.pdf'' 2]]) \<and>
   field (fst (execute_tool example_pipeline ''search_specific_document''
                 [(''document_name'', PStr ''a.pdf''), (''query'', PStr ''wetlands''),
                  (''top_k'', PInt (- 1))])) ''documents'' =
     Some (PList [result_of (chunk ''marsh'' ''A.pdf'' 1)]) \<and>
   (\<exists>s. entry_field (result_of (chunk ''marsh'' ''A.pdf'' 1)) ''source'' = Some (PStr s) \<and>
        sublist (lower ''a.pdf'') (lower s))"
proof (intro conjI)
  let ?scoped = "[chunk ''marsh'' ''A.pdf'' 1, chunk ''fen'' ''A.pdf'' 2,
                  chunk ''mire'' ''A.pdf'' 3, chunk ''swamp'' ''A.pdf'' 4]"
  let ?filtered = "[(chunk ''marsh'' ''A.pdf'' 1, PFloat (Finite 1 0 ''1.0'')),
                    (chunk ''fen'' ''A.pdf'' 2, PFloat (Finite 1 0 ''1.0''))]"
  let ?args = "\<lambda>k. [(''document_name'', PStr ''a.pdf''), (''query'', PStr ''wetlands''),
                     (''top_k'', PInt k)]"
  have 1: "int_or_default (dict_get (?args k) ''top_k'' (PInt 5)) 5 = Inr k" for k
    by (simp add: int_or_default_def dict_get_def)
  have 2: "py_str (dict_get (?args k) ''document_name'' (PStr [])) = ''a.pdf''" for k
    by (simp add: dict_get_def py_str_def)
  have 3: "''a.pdf'' \<noteq> []" by simp
  have 4: "py_str (dict_get (?args k) ''query'' (PStr [])) = ''wetlands''" for k
    by (simp add: dict_get_def py_str_def)
  have 5: "''wetlands'' \<noteq> []" by simp
  have 6: "hybrid_retriever example_pipeline = Some (\<lambda>query. Inr ranking)"
    by (simp add: example_pipeline_def)
  have 7: "(\<lambda>query. Inr ranking) ''wetlands'' = (Inr ranking :: exc + document list)" by simp
  show 8: "doc_specific ''a.pdf'' ranking = Inr ?scoped"
    by (rule doc_specific_ranking_a)
  have 9: "?scoped \<noteq> []" by simp
  have 10: "relevance_checker example_pipeline = Some keep_all"
    by (simp add: example_pipeline_def)
  note one = search_specific_document_filters_then_truncates
               [OF 1 [of 1] 2 3 4 5 6 7 8 9 10, where filtered = ?filtered]
  have a: "0 \<le> (1::int) \<and> keep_all ''wetlands'' (first_n (2 * 1) ?scoped) = Inr ?filtered"
    by (simp add: keep_all_def first_n_def)
  from one [THEN conjunct2, THEN conjunct1, THEN mp, OF a]
  show "execute_tool example_pipeline ''search_specific_document'' (?args 1) =
     ([(''success'', PBool True),
       (''message'', PStr (''Retrieved 1 chunks from '' @ [CHR 0x27] @ ''a.pdf'' @ [CHR 0x27])),
       (''documents'',
        PList [PDict [(''content'', PStr ''marsh''), (''source'', PStr ''A.pdf''),
                      (''page'', PInt 1), (''type'', PStr ''text'')]]),
       (''count'', PInt 1),
       (''searched_document'', PStr ''a.pdf'')],
      [Invoke ''wetlands'',
       FilterDocuments ''wetlands'' [chunk ''marsh'' ''A.pdf'' 1, chunk ''fen'' ''A.pdf'' 2]])"
    by (simp add: first_n_def str_of_int_digits result_of_def chunk_def dict_get_def)
  show docs: "field (fst (execute_tool example_pipeline ''search_specific_document''
                 (?args (- 1)))) ''documents'' =
     Some (PList [result_of (chunk ''marsh'' ''A.pdf'' 1)])"
    by (simp add: doc_specific_ranking_a execute_tool_search caught_def
        search_specific_document_def int_or_default_def dict_get_def py_str_def
        example_pipeline_def keep_all_def py_slice_to_def str_of_int_digits field_def Let_def)
  have "\<forall>docs found. keep_all ''wetlands'' docs = Inr found \<longrightarrow> subseq (map fst found) docs"
    using keep_all_subseq by (intro allI impI)
  with docs have b:
    "(\<forall>docs found. keep_all ''wetlands'' docs = Inr found \<longrightarrow> subseq (map fst found) docs) \<and>
     field (fst (execute_tool example_pipeline ''search_specific_document''
                 (?args (- 1)))) ''documents'' =
     Some (PList [result_of (chunk ''marsh'' ''A.pdf'' 1)])"
    by (rule_tac conjI)
  note minus = search_specific_document_filters_then_truncates
                 [OF 1 [of "- 1"] 2 3 4 5 6 7 8 9 10,
                  where results = "[result_of (chunk ''marsh'' ''A.pdf'' 1)]"]
  from minus [THEN conjunct2, THEN conjunct2, THEN mp, OF b, THEN bspec,
              of "result_of (chunk ''marsh'' ''A.pdf'' 1)"]
  show "\<exists>s. entry_field (result_of (chunk ''marsh'' ''A.pdf'' 1)) ''source'' = Some (PStr s) \<and>
        sublist (lower ''a.pdf'') (lower s)"
    by simp
qed

section \<open>The arguments of the retrieval handlers\<close>

lemma int_or_default_falls_back:
  assumes "py_int v = Inl e" and "exc_class e = ValueError \<or> exc_class e = TypeError"
  shows "int_or_default v d = Inr d"
  using assms by (simp add: int_or_default_def)

lemma int_or_default_text: "int_or_default (PStr ''abc'') 8 = Inr 8"
proof -
  have "isl (int_of_str ''abc'')"
    by (simp add: int_of_str_def strip_def is_space_def int_literal_def is_digit_def Let_def)
  then show ?thesis
    by (cases "int_of_str ''abc''") (simp_all add: int_or_default_def)
qed

lemma question_supplies_query:
  assumes "map_of args ''query'' = None"
  shows "dict_get args ''query'' (dict_get args ''question'' (PStr [])) =
         dict_get args ''question'' (PStr [])"
  using assms by (simp add: dict_get_def)

lemma retrieve_documents_query_required:
  assumes "\<not> infinite_top_k args"
    and "py_str (dict_get args ''query'' (dict_get args ''question'' (PStr []))) = []"
  shows "execute_tool p ''retrieve_documents'' args =
     ([(''error'', PStr ''Query is required''), (''success'', PBool False)], [])"
proof -
  obtain k where "int_or_default (dict_get args ''top_k'' (PInt 8)) 8 = Inr k"
    using int_or_default_top_k [OF assms(1)] by blast
  then show ?thesis
    using assms(2) by (simp add: execute_tool_retrieve retrieve_documents_def caught_Inr)
qed

lemma search_specific_document_both_required:
  assumes "\<not> infinite_top_k args"
    and "py_str (dict_get args ''document_name'' (PStr [])) = [] \<or>
         py_str (dict_get args ''query'' (PStr [])) = []"
  shows "execute_tool p ''search_specific_document'' args =
     ([(''error'', PStr ''Both document_name and query are required''),
       (''success'', PBool False)], [])"
proof -
  obtain k where "int_or_default (dict_get args ''top_k'' (PInt 5)) 5 = Inr k"
    using int_or_default_top_k [OF assms(1)] by blast
  then show ?thesis
    using assms(2) by (auto simp: execute_tool_search search_specific_document_def caught_Inr)
qed

text \<open>
  Claim C7. \<open>retrieve_documents\<close> is lenient with its arguments: the \<open>question\<close>
  key supplies a missing \<open>query\<close>, an empty query gives \<open>Query is required\<close>
  without a call, and a \<open>top_k\<close> that cannot be read as an integer raises no error
  and leaves the limit at 8. The code does so for a value on which \<^verbatim>\<open>int\<close> raises
  \<^verbatim>\<open>ValueError\<close> or \<^verbatim>\<open>TypeError\<close>, such as the text \<open>abc\<close>. On an infinite
  float \<^verbatim>\<open>int\<close> raises \<^verbatim>\<open>OverflowError\<close>, which the handler does not catch:
  the call ends in an error envelope, whatever the query is.
\<close>

theorem retrieve_documents_infinite_top_k:
  "int_or_default (PStr ''abc'') 8 = Inr 8 \<and>
   int_or_default (PFloat (Infinity False)) 8 =
     Inl (Exc OverflowError ''cannot convert float infinity to integer'') \<and>
   execute_tool p ''retrieve_documents''
       [(''query'', PStr ''wetlands''), (''top_k'', PFloat (Infinity False))] =
     ([(''error'', PStr ''cannot convert float infinity to integer''),
       (''success'', PBool False)], []) \<and>
   execute_tool p ''retrieve_documents'' [(''top_k'', PFloat (Infinity False))] =
     ([(''error'', PStr ''cannot convert float infinity to integer''),
       (''success'', PBool False)], [])"
proof (intro conjI)
  show "int_or_default (PStr ''abc'') 8 = Inr 8"
    by (rule int_or_default_text)
qed (simp_all add: execute_tool_retrieve retrieve_documents_def caught_def
      int_or_default_def dict_get_def)

text \<open>
  Claim C10. \<open>search_specific_document\<close> returns
  \<open>Both document_name and query are required\<close>, without a call, whenever the
  document name or the query is empty after coercion, one of them or both. The code
  does so unless \<open>top_k\<close> is an infinite float: \<open>top_k\<close> is read before the two
  strings are tested, and the \<^verbatim>\<open>OverflowError\<close> of \<^verbatim>\<open>int\<close> is not caught by the
  handler, so that the envelope carries that error instead.
\<close>

theorem search_specific_document_infinite_top_k:
  "execute_tool p ''search_specific_document''
       [(''document_name'', PStr []), (''query'', PStr ''wetlands''),
        (''top_k'', PFloat (Infinity False))] =
     ([(''error'', PStr ''cannot convert float infinity to integer''),
       (''success'', PBool False)], []) \<and>
   execute_tool p ''search_specific_document''
       [(''document_name'', PStr []), (''query'', PStr ''wetlands'')] =
     ([(''error'', PStr ''Both document_name and query are required''),
       (''success'', PBool False)], [])"
  by (simp add: execute_tool_search search_specific_document_def caught_def
      int_or_default_def dict_get_def py_str_def)

end
